theory Spec2Isabelle
  imports Main "HOL-Library.Word"
begin

unbundle bit_operations_syntax

section \<open>Values, errors and the result type\<close>

text \<open>
  The command builders of \<^verbatim>\<open>commands.py\<close> take loosely typed arguments (the command line
  hands them strings, the defaults are integers and booleans) and return \<^verbatim>\<open>bytes\<close>.
  A Python value that can reach \<^verbatim>\<open>to_int\<close> / \<^verbatim>\<open>to_bool\<close> is an integer, a string or a
  boolean. Strings are ASCII character lists.
\<close>

type_synonym byte = "8 word"

datatype pyval = PInt int | PStr string | PBool bool

text \<open>
  Every \<^verbatim>\<open>raise\<close> of the module is a constructor. All but \<open>Overflow\<close>, \<open>KeyError\<close>,
  \<open>TypeError\<close> and \<open>External\<close> are Python \<^verbatim>\<open>ValueError\<close>s, told apart by their message
  or their origin:
  \<^item> \<open>InvalidBoolean\<close>: \<^verbatim>\<open>"Invalid boolean value: ..."\<close> (\<^verbatim>\<open>to_bool\<close>);
  \<^item> \<open>InvalidInteger name\<close>: \<^verbatim>\<open>"Invalid integer value for {name}: ..."\<close> (\<^verbatim>\<open>to_int\<close>);
  \<^item> \<open>OutOfRange name\<close>: \<^verbatim>\<open>"{name} must be between ..."\<close> (\<^verbatim>\<open>validate_range\<close>);
  \<^item> \<open>NotAllowed name\<close>: \<^verbatim>\<open>"{name} must be one of ..."\<close> (\<^verbatim>\<open>validate_list\<close>);
  \<^item> \<open>InvalidDate\<close>: \<^verbatim>\<open>"Invalid date format: ..."\<close> (\<^verbatim>\<open>set_clock_mode\<close>);
  \<^item> \<open>UnsupportedAnimation\<close>: \<^verbatim>\<open>"Invalid animation for text display"\<close> (\<^verbatim>\<open>send_text\<close>);
  \<^item> \<open>HexError\<close>: the \<^verbatim>\<open>ValueError\<close> of \<^verbatim>\<open>bytes.fromhex\<close>;
  \<^item> \<open>ByteRange\<close>: the \<^verbatim>\<open>ValueError\<close> of \<^verbatim>\<open>bytearray([...])\<close> on a value outside 0..255;
  \<^item> \<open>Overflow\<close>: the \<^verbatim>\<open>OverflowError\<close> of \<^verbatim>\<open>int.to_bytes\<close> and of \<^verbatim>\<open>datetime\<close>;
  \<^item> \<open>KeyError\<close>: a dictionary lookup of an absent key;
  \<^item> \<open>TypeError\<close>: calling a renderer that was never set, \<^verbatim>\<open>open(None)\<close>, a keyword
    argument the callee does not have;
  \<^item> \<open>InvalidPath\<close>: the \<^verbatim>\<open>ValueError\<close> of \<^verbatim>\<open>open\<close> on a path it rejects before any
    I/O (an embedded null character);
  \<^item> \<open>External msg\<close>: whatever an external collaborator (rasterizer, bit tools) raises.
\<close>

datatype error =
    InvalidBoolean
  | InvalidInteger string
  | OutOfRange string
  | NotAllowed string
  | InvalidDate
  | UnsupportedAnimation
  | HexError
  | ByteRange
  | Overflow
  | KeyError
  | TypeError
  | InvalidPath
  | External string

type_synonym 'a result = "error + 'a"

definition bnd :: "'a result \<Rightarrow> ('a \<Rightarrow> 'b result) \<Rightarrow> 'b result" where
  "bnd r f = (case r of Inl e \<Rightarrow> Inl e | Inr x \<Rightarrow> f x)"

section \<open>Python built-ins used by the module\<close>

subsection \<open>Characters\<close>

definition digit_val :: "char \<Rightarrow> nat option" where
  "digit_val c = (let n = (of_char c :: nat) in
     if 48 \<le> n \<and> n \<le> 57 then Some (n - 48) else None)"

definition hex_val :: "char \<Rightarrow> nat option" where
  "hex_val c = (let n = (of_char c :: nat) in
     if 48 \<le> n \<and> n \<le> 57 then Some (n - 48)
     else if 97 \<le> n \<and> n \<le> 102 then Some (n - 87)
     else if 65 \<le> n \<and> n \<le> 70 then Some (n - 55)
     else None)"

definition hex_digit :: "nat \<Rightarrow> char" where
  "hex_digit n = ''0123456789abcdef'' ! (n mod 16)"

definition dec_digit :: "nat \<Rightarrow> char" where
  "dec_digit n = ''0123456789'' ! (n mod 10)"

text \<open>
  ASCII white space (space and \<^verbatim>\<open>0x09\<close> to \<^verbatim>\<open>0x0d\<close>): what \<^verbatim>\<open>bytes.fromhex\<close> skips between
  bytes and what \<^verbatim>\<open>int\<close> strips from both ends of a string.
\<close>

definition is_space :: "char \<Rightarrow> bool" where
  "is_space c = (let n = (of_char c :: nat) in n = 32 \<or> (9 \<le> n \<and> n \<le> 13))"

definition lower_char :: "char \<Rightarrow> char" where
  "lower_char c = (let n = (of_char c :: nat) in
     if 65 \<le> n \<and> n \<le> 90 then char_of (n + 32) else c)"

definition lower :: "string \<Rightarrow> string" where
  "lower s = map lower_char s"

subsection \<open>\<^verbatim>\<open>int(str)\<close>\<close>

text \<open>
  \<^verbatim>\<open>int(s)\<close> on a string: surrounding white space is stripped, one sign is allowed, then
  decimal digits, with single underscores between digits. A string of more than 4300
  digit characters (leading zeros counted, underscores not) exceeds the interpreter's
  limit for the conversion. \<open>None\<close> is \<^verbatim>\<open>ValueError\<close>.
\<close>

fun parse_digits :: "nat \<Rightarrow> bool \<Rightarrow> string \<Rightarrow> nat option" where
  "parse_digits acc prev [] = (if prev then Some acc else None)"
| "parse_digits acc prev (c # cs) =
     (if c = CHR ''_'' then (if prev \<and> cs \<noteq> [] then parse_digits acc False cs else None)
      else (case digit_val c of
              None \<Rightarrow> None
            | Some d \<Rightarrow> parse_digits (10 * acc + d) True cs))"

definition strip :: "string \<Rightarrow> string" where
  "strip s = rev (dropWhile is_space (rev (dropWhile is_space s)))"

definition int_max_str_digits :: nat where
  "int_max_str_digits = 4300"

definition py_int_of_str :: "string \<Rightarrow> int option" where
  "py_int_of_str s =
     (case strip s of
        [] \<Rightarrow> None
      | c # r \<Rightarrow>
          if int_max_str_digits < length (filter (\<lambda>d. digit_val d \<noteq> None) (c # r)) then None
          else if c = CHR ''-'' then map_option (\<lambda>n. - int n) (parse_digits 0 False r)
          else if c = CHR ''+'' then map_option int (parse_digits 0 False r)
          else map_option int (parse_digits 0 False (c # r)))"

subsection \<open>\<^verbatim>\<open>str.split\<close>\<close>

fun split_on :: "char \<Rightarrow> string \<Rightarrow> string list" where
  "split_on d [] = [[]]"
| "split_on d (c # cs) =
     (if c = d then [] # split_on d cs
      else (case split_on d cs of
              [] \<Rightarrow> [[c]]
            | p # ps \<Rightarrow> (c # p) # ps))"

subsection \<open>Number formatting\<close>

function hex_nat :: "nat \<Rightarrow> string" where
  "hex_nat n = (if n < 16 then [hex_digit n] else hex_nat (n div 16) @ [hex_digit n])"
  by pat_completeness auto
termination
  by (relation "measure id") auto

function dec_nat :: "nat \<Rightarrow> string" where
  "dec_nat n = (if n < 10 then [dec_digit n] else dec_nat (n div 10) @ [dec_digit n])"
  by pat_completeness auto
termination
  by (relation "measure id") auto

declare hex_nat.simps [simp del]
declare dec_nat.simps [simp del]

text \<open>\<^verbatim>\<open>f"{n:02x}"\<close>: lower-case hex, sign first, zero-padded to two characters.\<close>

definition fmt_02x :: "int \<Rightarrow> string" where
  "fmt_02x n =
     (if n < 0 then CHR ''-'' # hex_nat (nat (- n))
      else if n < 16 then CHR ''0'' # hex_nat (nat n)
      else hex_nat (nat n))"

text \<open>\<^verbatim>\<open>f"{n:02}"\<close>: decimal, sign first, zero-padded to two characters.\<close>

definition fmt_02 :: "int \<Rightarrow> string" where
  "fmt_02 n =
     (if n < 0 then CHR ''-'' # dec_nat (nat (- n))
      else if n < 10 then CHR ''0'' # dec_nat (nat n)
      else dec_nat (nat n))"

text \<open>\<^verbatim>\<open>hex(n)\<close>, and \<^verbatim>\<open>s.zfill(w)\<close> (zeros go after a leading sign).\<close>

definition py_hex :: "int \<Rightarrow> string" where
  "py_hex n = (if n < 0 then ''-0x'' @ hex_nat (nat (- n)) else ''0x'' @ hex_nat (nat n))"

definition zfill :: "nat \<Rightarrow> string \<Rightarrow> string" where
  "zfill w s =
     (if w \<le> length s then s
      else (case s of
              [] \<Rightarrow> replicate w CHR ''0''
            | c # r \<Rightarrow>
                if c = CHR ''+'' \<or> c = CHR ''-''
                then c # replicate (w - length s) CHR ''0'' @ r
                else replicate (w - length s) CHR ''0'' @ s))"

subsection \<open>\<^verbatim>\<open>bytes.fromhex\<close>, \<^verbatim>\<open>bytearray\<close>, \<^verbatim>\<open>int.to_bytes\<close>\<close>

text \<open>
  \<^verbatim>\<open>bytes.fromhex\<close> skips white space between bytes and needs two hex digits per byte;
  anything else is a \<^verbatim>\<open>ValueError\<close>.
\<close>

fun fromhex :: "string \<Rightarrow> byte list result" where
  "fromhex [] = Inr []"
| "fromhex [c] = (if is_space c then Inr [] else Inl HexError)"
| "fromhex (c # d # cs) =
     (if is_space c then fromhex (d # cs)
      else (case (hex_val c, hex_val d) of
              (Some a, Some b) \<Rightarrow>
                (case fromhex cs of
                   Inl e \<Rightarrow> Inl e
                 | Inr bs \<Rightarrow> Inr (of_nat (16 * a + b) # bs))
            | _ \<Rightarrow> Inl HexError))"

text \<open>\<^verbatim>\<open>bytearray([v, ...])\<close>: every value must be in \<^verbatim>\<open>range(256)\<close>.\<close>

definition bytearray :: "int list \<Rightarrow> byte list result" where
  "bytearray vs =
     (if list_all (\<lambda>v. 0 \<le> v \<and> v < 256) vs then Inr (map of_int vs) else Inl ByteRange)"

text \<open>\<^verbatim>\<open>n.to_bytes(k, byteorder='little')\<close>: \<^verbatim>\<open>OverflowError\<close> unless \<open>0 \<le> n < 256 ^ k\<close>.\<close>

definition to_bytes_le :: "int \<Rightarrow> nat \<Rightarrow> byte list result" where
  "to_bytes_le n k =
     (if 0 \<le> n \<and> n < 256 ^ k then Inr (map (\<lambda>i. of_int (n div 256 ^ i)) [0..<k])
      else Inl Overflow)"

text \<open>Reading a little-endian field back.\<close>

fun le_value :: "byte list \<Rightarrow> nat" where
  "le_value [] = 0"
| "le_value (b # bs) = unat b + 256 * le_value bs"

subsection \<open>\<^verbatim>\<open>datetime.datetime(y, m, d).weekday()\<close>\<close>

definition is_leap :: "int \<Rightarrow> bool" where
  "is_leap y = (y mod 4 = 0 \<and> (if y mod 100 = 0 then y mod 400 = 0 else True))"

definition days_in_month :: "int \<Rightarrow> int \<Rightarrow> int" where
  "days_in_month y m =
     (if m = 2 \<and> is_leap y then 29
      else [31, 28, 31, 30, 31, 30, 31, 31, 30, 31, 30, 31] ! nat (m - 1))"

definition days_before_year :: "int \<Rightarrow> int" where
  "days_before_year y =
     (let p = y - 1 in p * 365 + p div 4 - p div 100 + p div 400)"

definition days_before_month :: "int \<Rightarrow> int \<Rightarrow> int" where
  "days_before_month y m =
     sum_list (take (nat (m - 1)) [31, 28, 31, 30, 31, 30, 31, 31, 30, 31, 30, 31])
       + (if 2 < m \<and> is_leap y then 1 else 0)"

definition toordinal :: "int \<Rightarrow> int \<Rightarrow> int \<Rightarrow> int" where
  "toordinal y m d = days_before_year y + days_before_month y m + d"

text \<open>
  The constructor raises \<^verbatim>\<open>OverflowError\<close> for an argument that is no C \<^verbatim>\<open>int\<close>, and
  \<^verbatim>\<open>ValueError\<close> (here \<open>InvalidDate\<close>, as \<^verbatim>\<open>set_clock_mode\<close> re-raises it) for a date that
  does not exist. \<^verbatim>\<open>weekday()\<close> is 0 on Monday and 6 on Sunday.
\<close>

definition c_int :: "int \<Rightarrow> bool" where
  "c_int n = (- (2 ^ 31) \<le> n \<and> n < 2 ^ 31)"

definition datetime_weekday :: "int \<Rightarrow> int \<Rightarrow> int \<Rightarrow> int result" where
  "datetime_weekday y m d =
     (if \<not> (c_int y \<and> c_int m \<and> c_int d) then Inl Overflow
      else if \<not> (1 \<le> y \<and> y \<le> 9999) then Inl InvalidDate
      else if \<not> (1 \<le> m \<and> m \<le> 12) then Inl InvalidDate
      else if \<not> (1 \<le> d \<and> d \<le> days_in_month y m) then Inl InvalidDate
      else Inr ((toordinal y m d + 6) mod 7))"

section \<open>Utility functions\<close>

definition to_bool :: "pyval \<Rightarrow> bool result" where
  "to_bool v =
     (case v of
        PBool b \<Rightarrow> Inr b
      | PStr s \<Rightarrow>
          if lower s \<in> set [''true'', ''1'', ''yes''] then Inr True
          else if lower s \<in> set [''false'', ''0'', ''no''] then Inr False
          else Inl InvalidBoolean
      | PInt n \<Rightarrow> Inl InvalidBoolean)"

definition to_int :: "pyval \<Rightarrow> string \<Rightarrow> int result" where
  "to_int v name =
     (case v of
        PInt n \<Rightarrow> Inr n
      | PBool b \<Rightarrow> Inr (if b then 1 else 0)
      | PStr s \<Rightarrow> (case py_int_of_str s of None \<Rightarrow> Inl (InvalidInteger name) | Some n \<Rightarrow> Inr n))"

definition int_to_hex :: "int \<Rightarrow> string" where
  "int_to_hex n = fmt_02x n"

definition validate_range :: "int \<Rightarrow> int \<Rightarrow> int \<Rightarrow> string \<Rightarrow> unit result" where
  "validate_range v min_val max_val name =
     (if \<not> (min_val \<le> v \<and> v \<le> max_val) then Inl (OutOfRange name) else Inr ())"

definition validate_list :: "'a \<Rightarrow> 'a list \<Rightarrow> string \<Rightarrow> unit result" where
  "validate_list v valid_list name =
     (if v \<notin> set valid_list then Inl (NotAllowed name) else Inr ())"

section \<open>Simple commands: clock mode\<close>

text \<open>
  \<^verbatim>\<open>set_clock_mode\<close> reads the system clock when no date is given: the reading
  (year, month, day) is the first argument.
\<close>

definition parse_date :: "string \<Rightarrow> (int \<times> int \<times> int \<times> int) result" where
  "parse_date date =
     (case map py_int_of_str (split_on CHR ''/'' date) of
        [Some day, Some month, Some year] \<Rightarrow>
          bnd (datetime_weekday year month day) (\<lambda>wd. Inr (day, month, year, wd + 1))
      | _ \<Rightarrow> Inl InvalidDate)"

definition set_clock_mode ::
  "int \<times> int \<times> int \<Rightarrow> pyval \<Rightarrow> string \<Rightarrow> pyval \<Rightarrow> pyval \<Rightarrow> byte list result" where
  "set_clock_mode now style date show_date format_24 =
     bnd (to_int style ''style'') (\<lambda>style.
     bnd (to_bool show_date) (\<lambda>show_date.
     bnd (to_bool format_24) (\<lambda>format_24.
     bnd (if date = []
          then (case now of (ny, nm, nd) \<Rightarrow>
                  bnd (datetime_weekday ny nm nd) (\<lambda>wd. Inr (nd, nm, ny mod 100, wd + 1)))
          else parse_date date) (\<lambda>(day, month, year, day_of_week).
     bnd (validate_range style 0 8 ''Clock mode'') (\<lambda>_.
     bnd (validate_range day_of_week 1 7 ''Day of week'') (\<lambda>_.
     bnd (validate_range month 1 12 ''Month'') (\<lambda>_.
     bnd (validate_range day 1 31 ''Day'') (\<lambda>_.
     bnd (validate_range year 0 99 ''Year'') (\<lambda>_.
     bnd (fromhex ''0b000601'') (\<lambda>header.
     bnd (fromhex (int_to_hex style @ (if format_24 then ''01'' else ''00'')
                     @ (if show_date then ''01'' else ''00''))) (\<lambda>params.
     bnd (fromhex (int_to_hex year @ int_to_hex month @ int_to_hex day
                     @ int_to_hex day_of_week)) (\<lambda>date_bytes.
     Inr (header @ params @ date_bytes)))))))))))))"

section \<open>\<^verbatim>\<open>binascii.crc32\<close>\<close>

text \<open>
  The standard CRC-32 (reflected polynomial \<open>0xEDB88320\<close>, initial value and final
  complement \<open>0xFFFFFFFF\<close>), bit by bit.
\<close>

definition crc32_bit :: "32 word \<Rightarrow> 32 word" where
  "crc32_bit c = (if bit c 0 then drop_bit 1 c XOR 0xEDB88320 else drop_bit 1 c)"

definition crc32_byte :: "32 word \<Rightarrow> byte \<Rightarrow> 32 word" where
  "crc32_byte c b =
     crc32_bit (crc32_bit (crc32_bit (crc32_bit (crc32_bit (crc32_bit (crc32_bit (crc32_bit
       (c XOR ucast b))))))))"

definition crc32 :: "byte list \<Rightarrow> 32 word" where
  "crc32 data = NOT (foldl crc32_byte 0xFFFFFFFF data)"

section \<open>External collaborators\<close>

text \<open>
  \<^verbatim>\<open>commands.py\<close> imports the rasterizer \<^verbatim>\<open>char_to_hex\<close> from \<^verbatim>\<open>img_2_pix\<close> and the hex-text
  primitives from \<^verbatim>\<open>bit_tools\<close>. Neither module is part of the verified file: the builders
  take them as a parameter, a record of functions that may each raise.
  \<^verbatim>\<open>char_to_hex(char, matrix_height, font, font_offset, font_size, minmax_width)\<close> returns
  the glyph's hex text and its width; \<open>None\<close> for \<^verbatim>\<open>minmax_width\<close> is the callee's default.
\<close>

record tools =
  char_to_hex ::
    "char \<Rightarrow> int \<Rightarrow> string \<Rightarrow> int \<times> int \<Rightarrow> int \<Rightarrow> (int \<times> int \<times> int) option
       \<Rightarrow> (string \<times> int) result"
  invert_frames :: "string \<Rightarrow> string result"
  switch_endian :: "string \<Rightarrow> string result"
  logic_reverse_bits_order :: "string \<Rightarrow> string result"
  CRC32_checksum :: "string \<Rightarrow> string result"

section \<open>Legacy text command\<close>

text \<open>The loop of \<^verbatim>\<open>encode_text\<close>, with \<^verbatim>\<open>result\<close> as the accumulator.\<close>

fun encode_text_loop ::
  "tools \<Rightarrow> int \<Rightarrow> string \<Rightarrow> string \<Rightarrow> int \<times> int \<Rightarrow> int \<Rightarrow> string \<Rightarrow> string
     \<Rightarrow> string result" where
  "encode_text_loop T matrix_height col font font_offset font_size [] result = Inr result"
| "encode_text_loop T matrix_height col font font_offset font_size (c # cs) result =
     bnd (char_to_hex T c matrix_height font font_offset font_size None)
       (\<lambda>(char_hex, char_width).
     bnd (invert_frames T char_hex) (\<lambda>inverted.
     bnd (switch_endian T inverted) (\<lambda>switched.
     bnd (logic_reverse_bits_order T switched) (\<lambda>char_hex_converted.
     encode_text_loop T matrix_height col font font_offset font_size cs
       (if char_hex \<noteq> []
        then result @ ''80'' @ col @ fmt_02x char_width @ fmt_02x matrix_height
               @ char_hex_converted
        else result)))))"

definition encode_text ::
  "tools \<Rightarrow> string \<Rightarrow> int \<Rightarrow> string \<Rightarrow> string \<Rightarrow> int \<times> int \<Rightarrow> int \<Rightarrow> string result" where
  "encode_text T text matrix_height col font font_offset font_size =
     bnd (encode_text_loop T matrix_height col font font_offset font_size text [])
       (\<lambda>result. Inr (lower result))"

definition send_text ::
  "tools \<Rightarrow> string \<Rightarrow> pyval \<Rightarrow> pyval \<Rightarrow> pyval \<Rightarrow> pyval \<Rightarrow> string \<Rightarrow> string
     \<Rightarrow> pyval \<Rightarrow> pyval \<Rightarrow> pyval \<Rightarrow> pyval \<Rightarrow> byte list result" where
  "send_text T text rainbow_mode_arg animation_arg save_slot_arg speed_arg col font
       font_offset_x_arg font_offset_y_arg font_size_arg matrix_height_arg =
     bnd (to_int rainbow_mode_arg ''rainbow mode'') (\<lambda>rainbow_mode.
     bnd (to_int animation_arg ''animation'') (\<lambda>animation.
     bnd (to_int save_slot_arg ''save slot'') (\<lambda>save_slot.
     bnd (to_int speed_arg ''speed'') (\<lambda>speed.
     bnd (to_int font_offset_x_arg ''font offset x'') (\<lambda>font_offset_x.
     bnd (to_int font_offset_y_arg ''font offset y'') (\<lambda>font_offset_y.
     bnd (to_int font_size_arg ''font size'') (\<lambda>font_size.
     bnd (to_int matrix_height_arg ''matrix height'') (\<lambda>matrix_height.
     bnd (validate_range rainbow_mode 0 9 ''Rainbow mode'') (\<lambda>_.
     bnd (validate_range animation 0 7 ''Animation'') (\<lambda>_.
     bnd (validate_range save_slot 1 10 ''Save slot'') (\<lambda>_.
     bnd (validate_range speed 0 100 ''Speed'') (\<lambda>_.
     bnd (validate_range (int (length text)) 1 100 ''Text length'') (\<lambda>_.
     bnd (validate_range matrix_height 1 128 ''Matrix height'') (\<lambda>_.
     let font_size = (if font_size = 0 then matrix_height else font_size) in
     if animation = 3 \<or> animation = 4 then Inl UnsupportedAnimation
     else
       let HEADER_1_MG = 0x1D;
           HEADER_3_MG = 0xE;
           header_gap = 0x06 + matrix_height * 0x2
       in
       bnd (switch_endian T
              (zfill 4 (drop 2 (py_hex (HEADER_1_MG + int (length text) * header_gap)))))
         (\<lambda>header_1.
       bnd (switch_endian T
              (zfill 4 (drop 2 (py_hex (HEADER_3_MG + int (length text) * header_gap)))))
         (\<lambda>header_3.
       let header_2 = ''000100'';
           header_4 = ''0000'';
           header = header_1 @ header_2 @ header_3 @ header_4;
           save_slot_hex = zfill 4 (drop 2 (py_hex save_slot));
           number_of_characters = int_to_hex (int (length text));
           properties = ''000101'' @ int_to_hex animation @ int_to_hex speed
                          @ int_to_hex rainbow_mode @ ''ffffff00000000''
       in
       bnd (encode_text T text matrix_height col font (font_offset_x, font_offset_y) font_size)
         (\<lambda>characters.
       bnd (CRC32_checksum T (number_of_characters @ properties @ characters)) (\<lambda>checksum.
       fromhex (header @ checksum @ save_slot_hex @ number_of_characters @ properties
                  @ characters)))))))))))))))))))"

section \<open>New text packets\<close>

definition add_packet_size :: "byte list \<Rightarrow> byte list result" where
  "add_packet_size b = bnd (to_bytes_le (int (length b) + 2) 2) (\<lambda>n. Inr (n @ b))"

definition update_packet_size :: "byte list \<Rightarrow> byte list result" where
  "update_packet_size b = bnd (to_bytes_le (int (length b)) 2) (\<lambda>n. Inr (n @ drop 2 b))"

definition binCRC32_checksum :: "byte list \<Rightarrow> int" where
  "binCRC32_checksum data = uint (crc32 data AND 0xFFFFFFFF)"

subsection \<open>Frames\<close>

definition width2val :: "(int \<times> int) list" where
  "width2val = [(16, 0x08), (32, 0x09), (20, 0x0C), (24, 0x0B), (64, 0x0A)]"

definition text_img_frame :: "int \<Rightarrow> byte list \<Rightarrow> byte list result" where
  "text_img_frame res jpg_data =
     bnd (validate_list res (map fst width2val) ''width'') (\<lambda>_.
     case map_of width2val res of
       None \<Rightarrow> Inl KeyError
     | Some v \<Rightarrow>
         bnd (bytearray [v]) (\<lambda>h.
         bnd (to_bytes_le (int (length jpg_data)) 3) (\<lambda>n.
         Inr (h @ n @ jpg_data))))"

definition res2val_size :: "(string \<times> int \<times> int) list" where
  "res2val_size =
     [(''16x08'', (0x00, 16 * 8 div 8)),
      (''16x16'', (0x01, 16 * 16 div 8)),
      (''32x16'', (0x02, 32 * 16 div 8)),
      (''32x32'', (0x03, 32 * 32 div 8)),
      (''48x24'', (0x04, 48 * 24 div 8)),
      (''48x48'', (0x05, 48 * 48 div 8)),
      (''64x32'', (0x06, 64 * 32 div 8)),
      (''64x64'', (0x07, 64 * 64 div 8))]"

definition text_bmp_frame :: "int \<Rightarrow> int \<Rightarrow> string \<Rightarrow> byte list \<Rightarrow> byte list result" where
  "text_bmp_frame height width color_rgb bmp_data =
     (let res = fmt_02 height @ ''x'' @ fmt_02 width in
      bnd (validate_list res (map fst res2val_size) ''width'') (\<lambda>_.
      case map_of res2val_size res of
        None \<Rightarrow> Inl KeyError
      | Some (val, expected) \<Rightarrow>
          bnd (validate_list (int (length bmp_data)) [expected] ''bmp size'') (\<lambda>_.
          bnd (bytearray [val]) (\<lambda>h.
          bnd (fromhex color_rgb) (\<lambda>rgb.
          Inr (h @ rgb @ bmp_data))))))"

definition text_bmp_var_width_frame ::
  "int \<Rightarrow> int \<Rightarrow> string \<Rightarrow> byte list \<Rightarrow> byte list result" where
  "text_bmp_var_width_frame height width color_rgb bmp_data =
     bnd (validate_list height [16, 32, 24, 20, 12] ''bmp height'') (\<lambda>_.
     bnd (validate_list (int (length bmp_data)) [height * ((width + 7) div 8)] ''bmp size'')
       (\<lambda>_.
     bnd (bytearray [0x80]) (\<lambda>h.
     bnd (fromhex color_rgb) (\<lambda>rgb.
     bnd (bytearray [width, height]) (\<lambda>wh.
     Inr (h @ rgb @ wh @ bmp_data))))))"

subsection \<open>The renderer\<close>

text \<open>
  The keyword arguments \<^verbatim>\<open>set_renderer\<close> stores and \<^verbatim>\<open>add_text\<close> hands to the renderer:
  those \<^verbatim>\<open>char2bytes\<close> accepts, each present or absent.
\<close>

record render_kwargs =
  kw_font :: "string option"
  kw_font_offset :: "(int \<times> int) option"
  kw_font_size :: "int option"
  kw_minmax_width :: "(int \<times> int \<times> int) option"

type_synonym renderer = "char \<Rightarrow> int \<Rightarrow> render_kwargs \<Rightarrow> (byte list \<times> int) result"

definition no_kwargs :: render_kwargs where
  "no_kwargs = \<lparr>kw_font = None, kw_font_offset = None, kw_font_size = None,
                 kw_minmax_width = None\<rparr>"

definition char2bytes :: "tools \<Rightarrow> renderer" where
  "char2bytes T c matrix_height kw =
     (let font = (case kw_font kw of None \<Rightarrow> ''default'' | Some f \<Rightarrow> f);
          font_offset = (case kw_font_offset kw of None \<Rightarrow> (0, 0) | Some off \<Rightarrow> off);
          minmax_width = (case kw_minmax_width kw of None \<Rightarrow> (9, 16, 1) | Some m \<Rightarrow> m);
          font_size = (case kw_font_size kw of
                         None \<Rightarrow> matrix_height
                       | Some s \<Rightarrow> if s = 0 then matrix_height else s)
      in
      bnd (char_to_hex T c matrix_height font font_offset font_size (Some minmax_width))
        (\<lambda>(char_hex, char_width).
      bnd (invert_frames T char_hex) (\<lambda>inverted.
      bnd (switch_endian T inverted) (\<lambda>switched.
      bnd (logic_reverse_bits_order T switched) (\<lambda>char_hex_converted.
      bnd (fromhex char_hex_converted) (\<lambda>bmp.
      Inr (bmp, char_width)))))))"

subsection \<open>The builder \<^verbatim>\<open>text_packet\<close>\<close>

record text_packet =
  led_type :: int
  animation :: int
  speed :: int
  halign :: int
  valign :: int
  color_mode :: int
  color :: string
  bg_color_mode :: int
  bg_color :: string
  char_frames :: "byte list list"
  render_call :: "renderer option"
  render_call_param :: render_kwargs

text \<open>\<^verbatim>\<open>text_packet.__init__\<close>, the arguments in the order of its signature.\<close>

definition text_packet_init ::
  "int \<Rightarrow> int \<Rightarrow> int \<Rightarrow> int \<Rightarrow> string \<Rightarrow> int \<Rightarrow> string \<Rightarrow> int \<Rightarrow> int \<Rightarrow> text_packet" where
  "text_packet_init =
     (\<lambda>led_type animation speed color_mode color bg_color_mode bg_color halign valign.
        \<lparr>led_type = led_type,
         animation = animation,
         speed = speed,
         halign = halign,
         valign = valign,
         color_mode = color_mode,
         color = color,
         bg_color_mode = bg_color_mode,
         bg_color = color,
         char_frames = [],
         render_call = None,
         render_call_param = no_kwargs\<rparr>)"

definition get_packet :: "text_packet \<Rightarrow> byte list result" where
  "get_packet self =
     bnd (to_bytes_le (int (length (char_frames self))) 2) (\<lambda>count.
     bnd (bytearray [halign self, valign self, animation self, speed self, color_mode self])
       (\<lambda>props.
     bnd (fromhex (color self)) (\<lambda>fg.
     bnd (bytearray [bg_color_mode self]) (\<lambda>bg_mode.
     bnd (fromhex (bg_color self)) (\<lambda>bg.
     Inr (count @ props @ fg @ bg_mode @ bg @ concat (char_frames self)))))))"

definition set_renderer :: "renderer option \<Rightarrow> render_kwargs \<Rightarrow> text_packet \<Rightarrow> text_packet" where
  "set_renderer rc kwargs self =
     (let self1 = self\<lparr>render_call := rc\<rparr> in
      if kwargs \<noteq> no_kwargs then self1\<lparr>render_call_param := kwargs\<rparr> else self1)"

text \<open>The colour shorthand: a string of a length other than 6 has every character doubled.\<close>

definition expand_color :: "string option \<Rightarrow> string" where
  "expand_color color_arg =
     (let c = (case color_arg of None \<Rightarrow> ''ffffff'' | Some s \<Rightarrow> s) in
      if length c = 6 then c else concat (map (\<lambda>ch. [ch, ch]) c))"

definition add_bmp ::
  "int \<Rightarrow> int \<Rightarrow> string option \<Rightarrow> byte list \<Rightarrow> text_packet \<Rightarrow> text_packet result" where
  "add_bmp height width color_arg bmp self =
     (let col = expand_color color_arg in
      if led_type self = 0 then
        (let width = ((width + 7) div 8) * 8 in
         bnd (text_bmp_frame height width col bmp) (\<lambda>frame.
         Inr (self\<lparr>char_frames := char_frames self @ [frame]\<rparr>)))
      else if led_type self = 1 then
        bnd (text_bmp_var_width_frame height width col bmp) (\<lambda>frame.
        Inr (self\<lparr>char_frames := char_frames self @ [frame]\<rparr>))
      else Inr self)"

text \<open>The loop of \<^verbatim>\<open>add_text\<close>: one renderer call and one \<^verbatim>\<open>add_bmp\<close> per character.\<close>

fun add_text_loop :: "int \<Rightarrow> string \<Rightarrow> string \<Rightarrow> text_packet \<Rightarrow> text_packet result" where
  "add_text_loop sz col [] self = Inr self"
| "add_text_loop sz col (c # cs) self =
     (case render_call self of
        None \<Rightarrow> Inl TypeError
      | Some render \<Rightarrow>
          bnd (render c sz (render_call_param self)) (\<lambda>(bmp, char_width).
          bnd (add_bmp sz char_width (Some col) bmp self) (\<lambda>self1.
          add_text_loop sz col cs self1)))"

definition add_text :: "string \<Rightarrow> int \<Rightarrow> string option \<Rightarrow> text_packet \<Rightarrow> text_packet result" where
  "add_text text sz color_arg self = add_text_loop sz (expand_color color_arg) text self"

text \<open>
  \<^verbatim>\<open>add_img\<close> opens and reads a file: the file system is a function from the path to the
  outcome of \<^verbatim>\<open>open\<close> and \<^verbatim>\<open>read\<close>: an \<^verbatim>\<open>OSError\<close> (no such file, no permission, a
  directory, a failed read), a path that \<^verbatim>\<open>open\<close> rejects with a \<^verbatim>\<open>ValueError\<close>, or the
  contents. Only the \<^verbatim>\<open>OSError\<close> is caught. With no file name, \<^verbatim>\<open>open(None)\<close> is a
  \<^verbatim>\<open>TypeError\<close>.
\<close>

datatype file_read = OSError | BadPath | Contents "byte list"

definition add_img ::
  "(string \<Rightarrow> file_read) \<Rightarrow> int \<Rightarrow> string option \<Rightarrow> text_packet \<Rightarrow> text_packet result" where
  "add_img fs sz filename self =
     (case filename of
        None \<Rightarrow> Inl TypeError
      | Some path \<Rightarrow>
          (case fs path of
             OSError \<Rightarrow> Inr self
           | BadPath \<Rightarrow> Inl InvalidPath
           | Contents data \<Rightarrow>
               bnd (text_img_frame sz data) (\<lambda>frame.
               Inr (self\<lparr>char_frames := char_frames self @ [frame]\<rparr>))))"

subsection \<open>The assembler\<close>

definition minmax_width80 :: "(int \<times> int \<times> int \<times> int) list" where
  "minmax_width80 =
     [(16, (9, 16, 1)), (12, (9, 16, 1)), (20, (9, 16, 1)), (24, (9, 16, 1)),
      (32, (17, 24, 1))]"

definition minmax_width00 :: "(int \<times> int \<times> int \<times> int) list" where
  "minmax_width00 =
     [(16, (8, 16, 8)), (32, (16, 32, 16)), (48, (24, 48, 24)), (64, (32, 64, 32))]"

text \<open>
  \<^verbatim>\<open>send_text2_\<close> of the source is \<open>send_text2_inner\<close> here (a name cannot end with an
  underscore). It takes \<^verbatim>\<open>font_offset_x\<close> and \<^verbatim>\<open>font_offset_y\<close> and uses neither.
\<close>

definition send_text2_inner ::
  "tools \<Rightarrow> string \<Rightarrow> int \<Rightarrow> int \<Rightarrow> int \<Rightarrow> int \<Rightarrow> int \<Rightarrow> int \<Rightarrow> int \<Rightarrow> string \<Rightarrow> int \<Rightarrow> string
     \<Rightarrow> string \<Rightarrow> int \<Rightarrow> int \<Rightarrow> int \<Rightarrow> int \<Rightarrow> byte list result" where
  "send_text2_inner =
     (\<lambda>T text led_type animation save_slot speed halign valign rainbow_mode color
        bg_color_mode bg_color font font_offset_x font_offset_y font_size matrix_height.
      let minmax_width = (if led_type = 0 then minmax_width00 else minmax_width80);
          pkt = text_packet_init led_type animation speed rainbow_mode color bg_color_mode
                  bg_color halign valign
      in
      case map_of minmax_width matrix_height of
        None \<Rightarrow> Inl KeyError
      | Some mm \<Rightarrow>
          let pkt = set_renderer (Some (char2bytes T))
                      \<lparr>kw_font = Some font, kw_font_offset = None,
                       kw_font_size = Some font_size, kw_minmax_width = Some mm\<rparr> pkt
          in
          bnd (add_text text matrix_height (Some color) pkt) (\<lambda>pkt.
          bnd (get_packet pkt) (\<lambda>prop_char.
          bnd (to_bytes_le (binCRC32_checksum prop_char) 4) (\<lambda>checksum.
          let tsize = int (length prop_char) + 4 + 4 + 2 in
          bnd (bytearray [0, save_slot]) (\<lambda>slot.
          bnd (fromhex ''ffff 0001 00'') (\<lambda>marker.
          bnd (to_bytes_le tsize 4) (\<lambda>tsize_bytes.
          let header = marker @ tsize_bytes @ checksum @ slot in
          update_packet_size (header @ prop_char))))))))"

subsection \<open>The entry points \<^verbatim>\<open>send_text1\<close> and \<^verbatim>\<open>send_text2\<close>\<close>

text \<open>
  The keyword arguments are an association list in the caller's order. The dictionary
  comprehension converts the values of the integer keys with \<^verbatim>\<open>to_int\<close>, in that order; the
  call \<^verbatim>\<open>send_text2_(text, led_type=..., **kwargs)\<close> then binds every parameter to its
  keyword or its default, and is a \<^verbatim>\<open>TypeError\<close> for a keyword \<^verbatim>\<open>send_text2_\<close> does not have.
  The colours and the font are strings: another value for them is a \<^verbatim>\<open>TypeError\<close> here.
\<close>

type_synonym kwargs = "(string \<times> pyval) list"

definition intkeys :: "string list" where
  "intkeys =
     [''animation'', ''save_slot'', ''speed'', ''halign'', ''valign'', ''rainbow_mode'',
      ''bg_color_mode'', ''font_offset_x'', ''font_offset_y'', ''font_size'',
      ''matrix_height'']"

fun convert_kwargs :: "kwargs \<Rightarrow> kwargs result" where
  "convert_kwargs [] = Inr []"
| "convert_kwargs ((k, v) # rest) =
     bnd (if k \<in> set intkeys then bnd (to_int v k) (\<lambda>n. Inr (PInt n)) else Inr v) (\<lambda>v1.
     bnd (convert_kwargs rest) (\<lambda>rest1.
     Inr ((k, v1) # rest1)))"

definition int_arg :: "kwargs \<Rightarrow> string \<Rightarrow> int \<Rightarrow> int result" where
  "int_arg kw k dflt =
     (case map_of kw k of
        None \<Rightarrow> Inr dflt
      | Some v \<Rightarrow> (case v of PInt n \<Rightarrow> Inr n | PStr s \<Rightarrow> Inl TypeError | PBool b \<Rightarrow> Inl TypeError))"

definition str_arg :: "kwargs \<Rightarrow> string \<Rightarrow> string \<Rightarrow> string result" where
  "str_arg kw k dflt =
     (case map_of kw k of
        None \<Rightarrow> Inr dflt
      | Some v \<Rightarrow> (case v of PStr s \<Rightarrow> Inr s | PInt n \<Rightarrow> Inl TypeError | PBool b \<Rightarrow> Inl TypeError))"

definition call_send_text2 :: "tools \<Rightarrow> string \<Rightarrow> int \<Rightarrow> kwargs \<Rightarrow> byte list result" where
  "call_send_text2 T text lt kw =
     (if \<not> list_all (\<lambda>(k, v). k \<in> set (intkeys @ [''color'', ''bg_color'', ''font''])) kw
      then Inl TypeError
      else
        bnd (int_arg kw ''animation'' 0) (\<lambda>animation.
        bnd (int_arg kw ''save_slot'' 0x65) (\<lambda>save_slot.
        bnd (int_arg kw ''speed'' 80) (\<lambda>speed.
        bnd (int_arg kw ''halign'' 0) (\<lambda>halign.
        bnd (int_arg kw ''valign'' 0) (\<lambda>valign.
        bnd (int_arg kw ''rainbow_mode'' 0) (\<lambda>rainbow_mode.
        bnd (str_arg kw ''color'' ''ffffff'') (\<lambda>color.
        bnd (int_arg kw ''bg_color_mode'' 0) (\<lambda>bg_color_mode.
        bnd (str_arg kw ''bg_color'' ''000000'') (\<lambda>bg_color.
        bnd (str_arg kw ''font'' ''default'') (\<lambda>font.
        bnd (int_arg kw ''font_offset_x'' 0) (\<lambda>font_offset_x.
        bnd (int_arg kw ''font_offset_y'' 0) (\<lambda>font_offset_y.
        bnd (int_arg kw ''font_size'' 0) (\<lambda>font_size.
        bnd (int_arg kw ''matrix_height'' 16) (\<lambda>matrix_height.
        send_text2_inner T text lt animation save_slot speed halign valign rainbow_mode color
          bg_color_mode bg_color font font_offset_x font_offset_y font_size
          matrix_height)))))))))))))))"

definition send_text1 :: "tools \<Rightarrow> string \<Rightarrow> kwargs \<Rightarrow> byte list result" where
  "send_text1 T text kwargs = bnd (convert_kwargs kwargs) (\<lambda>kw. call_send_text2 T text 1 kw)"

definition send_text2 :: "tools \<Rightarrow> string \<Rightarrow> kwargs \<Rightarrow> byte list result" where
  "send_text2 T text kwargs = bnd (convert_kwargs kwargs) (\<lambda>kw. call_send_text2 T text 0 kw)"

section \<open>A reference instance of the external collaborators\<close>

text \<open>
  Modelled from the spec: the bit tools of \<^verbatim>\<open>bit_tools\<close> and the rasterizer of \<^verbatim>\<open>img_2_pix\<close>,
  which the source imports and which the specification lists as consumed collaborators
  (\<^verbatim>\<open>BitOps.switchEndian\<close>, \<^verbatim>\<open>BitOps.invertBits\<close>, \<^verbatim>\<open>BitOps.reverseBitOrder\<close>,
  \<^verbatim>\<open>BitOps.checksumHex(hexText) -> 8-hex-char CRC32\<close>, \<^verbatim>\<open>Rasterizer.render\<close>). The theorems
  below hold for every instance; this one runs the builders on concrete inputs.
  \<^item> \<open>ref_switch_endian\<close> reverses the order of the bytes of a hex text;
  \<^item> \<open>ref_invert_frames\<close> complements every bit of a hex text;
  \<^item> \<open>ref_reverse_bits\<close> reverses the bit order within each byte of a hex text;
  \<^item> \<open>ref_checksum\<close> is the CRC-32 of the decoded hex text, as 8 hex digits, low byte first;
  \<^item> \<open>ref_rasterizer\<close> draws nothing for a space and an 8 pixels wide glyph, one byte per
    row, for every other character.
\<close>

fun hex_pairs :: "string \<Rightarrow> string list" where
  "hex_pairs [] = []"
| "hex_pairs [a] = []"
| "hex_pairs (a # b # r) = [a, b] # hex_pairs r"

definition is_hex_text :: "string \<Rightarrow> bool" where
  "is_hex_text s = (even (length s) \<and> list_all (\<lambda>c. hex_val c \<noteq> None) s)"

definition ref_switch_endian :: "string \<Rightarrow> string result" where
  "ref_switch_endian s =
     (if odd (length s) then Inl (External ''odd length'') else Inr (concat (rev (hex_pairs s))))"

definition ref_invert_frames :: "string \<Rightarrow> string result" where
  "ref_invert_frames s =
     (if is_hex_text s
      then Inr (map (\<lambda>c. case hex_val c of None \<Rightarrow> c | Some v \<Rightarrow> hex_digit (15 - v)) s)
      else Inl (External ''not hex''))"

definition rev_nibble :: "char \<Rightarrow> char" where
  "rev_nibble c =
     (case hex_val c of
        None \<Rightarrow> c
      | Some v \<Rightarrow> hex_digit ([0, 8, 4, 12, 2, 10, 6, 14, 1, 9, 5, 13, 3, 11, 7, 15] ! v))"

definition ref_reverse_bits :: "string \<Rightarrow> string result" where
  "ref_reverse_bits s =
     (if is_hex_text s
      then Inr (concat (map (\<lambda>p. map rev_nibble (rev p)) (hex_pairs s)))
      else Inl (External ''not hex''))"

definition ref_checksum :: "string \<Rightarrow> string result" where
  "ref_checksum s =
     bnd (fromhex s) (\<lambda>data. ref_switch_endian (zfill 8 (hex_nat (unat (crc32 data)))))"

definition ref_rasterizer ::
  "char \<Rightarrow> int \<Rightarrow> string \<Rightarrow> int \<times> int \<Rightarrow> int \<Rightarrow> (int \<times> int \<times> int) option
     \<Rightarrow> (string \<times> int) result" where
  "ref_rasterizer c matrix_height font font_offset font_size minmax_width =
     (if c = CHR '' '' then Inr ([], 0)
      else Inr (concat (replicate (nat matrix_height) ''3c''), 8))"

definition ref_tools :: tools where
  "ref_tools =
     \<lparr>char_to_hex = ref_rasterizer,
      invert_frames = ref_invert_frames,
      switch_endian = ref_switch_endian,
      logic_reverse_bits_order = ref_reverse_bits,
      CRC32_checksum = ref_checksum\<rparr>"

section \<open>The specification's resolution table, and reading numbers back\<close>

text \<open>
  The table of fixed resolutions as the specification words it (section 4.6): a
  (height, width) pair gives the discriminant byte and the expected byte length. The
  source's \<open>res2val_size\<close> is keyed by the formatted text \<^verbatim>\<open>f"{height:02}x{width:02}"\<close>
  instead; \<open>res2val_size_keys\<close> below compares the two.
\<close>

definition fixed_resolutions :: "((int \<times> int) \<times> int \<times> int) list" where
  "fixed_resolutions =
     [((16, 8), (0x00, 16)), ((16, 16), (0x01, 32)), ((32, 16), (0x02, 64)),
      ((32, 32), (0x03, 128)), ((48, 24), (0x04, 144)), ((48, 48), (0x05, 288)),
      ((64, 32), (0x06, 256)), ((64, 64), (0x07, 512))]"

text \<open>
  The value of a decimal text, and of a text formatted by \<open>fmt_02\<close>: the left inverses
  that show the formatting loses nothing.
\<close>

definition dval :: "char \<Rightarrow> nat" where
  "dval c = (case digit_val c of None \<Rightarrow> 0 | Some d \<Rightarrow> d)"

definition dec_val :: "string \<Rightarrow> nat" where
  "dec_val s = foldl (\<lambda>a c. 10 * a + dval c) 0 s"

definition fmt_02_val :: "string \<Rightarrow> int" where
  "fmt_02_val s =
     (case s of
        [] \<Rightarrow> 0
      | c # r \<Rightarrow> if c = CHR ''-'' then - int (dec_val r) else int (dec_val s))"

section \<open>Notions used to state the legacy text properties\<close>

text \<open>
  The 4-hex-digit rendering of a number below 65536, as the specification words the
  length fields; \<open>zfill_hex4\<close> below shows that \<^verbatim>\<open>hex(n)[2:].zfill(4)\<close> is this rendering.
\<close>

definition hex4 :: "nat \<Rightarrow> string" where
  "hex4 n = [hex_digit (n div 4096), hex_digit (n div 256), hex_digit (n div 16), hex_digit n]"


section \<open>Basic facts\<close>

lemma bnd_simps [simp]: "bnd (Inl e) f = Inl e" "bnd (Inr x) f = f x"
  by (simp_all add: bnd_def)

lemma bnd_eq_Inr: "bnd r f = Inr y \<longleftrightarrow> (\<exists>x. r = Inr x \<and> f x = Inr y)"
  by (cases r) simp_all

lemma upt_2: "[0..<2] = [0, 1]"
  and upt_3: "[0..<3] = [0, 1, 2]"
  and upt_4: "[0..<4] = [0, 1, 2, 3]"
  by (simp_all add: upt_rec)

lemma to_bytes_le_2:
  "to_bytes_le n 2 =
     (if 0 \<le> n \<and> n < 65536 then Inr [of_int n, of_int (n div 256)] else Inl Overflow)"
  by (simp add: to_bytes_le_def upt_2)

lemma to_bytes_le_3:
  "to_bytes_le n 3 =
     (if 0 \<le> n \<and> n < 16777216
      then Inr [of_int n, of_int (n div 256), of_int (n div 65536)] else Inl Overflow)"
  by (simp add: to_bytes_le_def upt_3)

lemma to_bytes_le_4:
  "to_bytes_le n 4 =
     (if 0 \<le> n \<and> n < 4294967296
      then Inr [of_int n, of_int (n div 256), of_int (n div 65536), of_int (n div 16777216)]
      else Inl Overflow)"
  by (simp add: to_bytes_le_def upt_4)

section \<open>Clock mode: the documented scenario\<close>

text \<open>
  Claim C7. \<^verbatim>\<open>set_clock_mode(style=0, date="15/6/24")\<close> with the default \<^verbatim>\<open>show_date\<close> and
  \<^verbatim>\<open>format_24\<close> returns the bytes \<^verbatim>\<open>0b 00 06 01 00 01 01 18 06 0f 06\<close>, whatever the clock
  reads: the date string parses as day 15, month 6, year 24, and the weekday byte is 6,
  Saturday (\<^verbatim>\<open>weekday()\<close> is 5, Monday being 0).
\<close>

theorem set_clock_mode_scenario:
  "parse_date ''15/6/24'' = Inr (15, 6, 24, 6) \<and>
   datetime_weekday 24 6 15 = Inr 5 \<and>
   set_clock_mode now (PInt 0) ''15/6/24'' (PBool True) (PBool True)
     = Inr [0x0b, 0x00, 0x06, 0x01, 0x00, 0x01, 0x01, 0x18, 0x06, 0x0f, 0x06]"
  by code_simp

section \<open>The packet builder\<close>

subsection \<open>The background colour of a packet\<close>

text \<open>
  Claim C2. The properties header should carry, after the \<^verbatim>\<open>bgColorMode\<close> byte, the bytes
  of the \<^verbatim>\<open>bg_color\<close> argument. The constructor stores the \<^verbatim>\<open>color\<close> argument in the
  \<^verbatim>\<open>bg_color\<close> field instead, so the header repeats the foreground colour: with the default
  arguments (\<^verbatim>\<open>color="ffffff"\<close>, \<^verbatim>\<open>bg_color="000000"\<close>) the last three bytes are
  \<^verbatim>\<open>ff ff ff\<close>, not \<^verbatim>\<open>00 00 00\<close>.
\<close>

theorem text_packet_bg_color_is_color:
  "bg_color (text_packet_init lt an sp cm col bgm bgc ha va) = col \<and>
   get_packet (text_packet_init 0 0 80 0 ''ffffff'' 0 ''000000'' 0 0)
     = Inr [0, 0, 0, 0, 0, 80, 0, 0xff, 0xff, 0xff, 0, 0xff, 0xff, 0xff]"
  by (simp add: text_packet_init_def get_packet_def to_bytes_le_2 bytearray_def hex_val_def
      is_space_def)

subsection \<open>Image frames: a file that cannot be read\<close>

text \<open>
  Claim C8, as amended. For every packet, \<^verbatim>\<open>add_img\<close> with a path whose \<^verbatim>\<open>open\<close> or \<^verbatim>\<open>read\<close>
  fails with an \<^verbatim>\<open>OSError\<close> raises nothing and returns the packet as it was: no frame is
  added, whatever the requested size. Only \<^verbatim>\<open>OSError\<close> is caught: a failure of \<^verbatim>\<open>open\<close> of
  another kind is raised to the caller.
\<close>

theorem add_img_read_failure_skips:
  "fs path = OSError \<Longrightarrow> add_img fs sz (Some path) self = Inr self"
  by (simp add: add_img_def)

theorem add_img_read_failure_skips_witness:
  "(\<lambda>p. OSError) ''jpg16x16'' = OSError \<and>
   add_img (\<lambda>p. OSError) 7 (Some ''jpg16x16'')
       (text_packet_init 0 1 100 0 ''0000ff'' 2 ''8fff34'' 1 1)
     = Inr (text_packet_init 0 1 100 0 ''0000ff'' 2 ''8fff34'' 1 1)"
  using add_img_read_failure_skips [of "\<lambda>p. OSError" "''jpg16x16''" 7
      "text_packet_init 0 1 100 0 ''0000ff'' 2 ''8fff34'' 1 1"]
  by simp

text \<open>
  The claim as first stated, for every failure of \<^verbatim>\<open>open\<close> or \<^verbatim>\<open>read\<close>, fails: \<^verbatim>\<open>open\<close> rejects
  the path \<^verbatim>\<open>"a\0b"\<close> (an embedded null character) with a \<^verbatim>\<open>ValueError\<close> before any I/O,
  the handler does not catch it, and \<^verbatim>\<open>add_img\<close> raises. The file system below rejects
  every path with a null character and has no other file.
\<close>

theorem add_img_rejected_path_raises:
  "add_img (\<lambda>p. if CHR 0x00 \<in> set p then BadPath else OSError) 16
       (Some [CHR ''a'', CHR 0x00, CHR ''b''])
       (text_packet_init 0 1 100 0 ''0000ff'' 2 ''8fff34'' 1 1)
     = Inl InvalidPath
   \<and> add_img (\<lambda>p. if CHR 0x00 \<in> set p then BadPath else OSError) 16
       (Some [CHR ''a'', CHR 0x00, CHR ''b''])
       (text_packet_init 0 1 100 0 ''0000ff'' 2 ''8fff34'' 1 1)
     \<noteq> Inr (text_packet_init 0 1 100 0 ''0000ff'' 2 ''8fff34'' 1 1)"
  by (simp add: add_img_def)

subsection \<open>Bitmaps on a panel type that is neither 0 nor 1\<close>

lemma add_bmp_other:
  "led_type self \<noteq> 0 \<Longrightarrow> led_type self \<noteq> 1 \<Longrightarrow> add_bmp h w ca bmp self = Inr self"
  by (simp add: add_bmp_def Let_def)

lemma add_text_loop_other:
  assumes "led_type self \<noteq> 0" "led_type self \<noteq> 1"
  shows "add_text_loop sz col s self = Inr self' \<Longrightarrow> self' = self"
  using assms
proof (induction s)
  case Nil
  then show ?case by simp
next
  case (Cons c cs)
  then show ?case
    by (auto simp: add_bmp_other bnd_def split: option.splits sum.splits prod.splits)
qed

lemma add_text_loop_other_ok:
  assumes "led_type self \<noteq> 0" "led_type self \<noteq> 1" "render_call self = Some rend"
    "list_all (\<lambda>c. \<not> isl (rend c sz (render_call_param self))) s"
  shows "add_text_loop sz col s self = Inr self"
  using assms
proof (induction s)
  case Nil
  then show ?case by simp
next
  case (Cons c cs)
  then show ?case
    by (auto simp: add_bmp_other bnd_def split: option.splits sum.splits prod.splits)
qed

text \<open>
  Claim C10. For a packet whose \<^verbatim>\<open>led_type\<close> is neither 0 nor 1, every \<^verbatim>\<open>add_bmp\<close> raises
  nothing and returns the packet unchanged (frames and every other field). So does each
  step of \<^verbatim>\<open>add_text\<close>: whenever \<^verbatim>\<open>add_text\<close> returns, the packet is unchanged, and it returns
  whenever the renderer is set and renders every character of the text.
\<close>

theorem add_bmp_unknown_led_type_drops:
  assumes "led_type self \<noteq> 0" and "led_type self \<noteq> 1"
  shows "add_bmp height width color_arg bmp self = Inr self
     \<and> (\<forall>self'. add_text s sz color_arg self = Inr self' \<longrightarrow> self' = self)
     \<and> (\<forall>rend. render_call self = Some rend
           \<and> list_all (\<lambda>c. \<not> isl (rend c sz (render_call_param self))) s
          \<longrightarrow> add_text s sz color_arg self = Inr self)"
  using assms
  by (auto simp: add_bmp_other add_text_def dest: add_text_loop_other
      intro: add_text_loop_other_ok)

theorem add_bmp_unknown_led_type_drops_witness:
  "add_bmp 16 8 (Some ''0000ff'') (replicate 16 0)
       (set_renderer (Some (char2bytes ref_tools)) no_kwargs
          (text_packet_init 2 1 100 0 ''0000ff'' 2 ''8fff34'' 1 1))
     = Inr (set_renderer (Some (char2bytes ref_tools)) no_kwargs
          (text_packet_init 2 1 100 0 ''0000ff'' 2 ''8fff34'' 1 1))
   \<and> add_text ''Hi'' 16 (Some ''0000ff'')
       (set_renderer (Some (char2bytes ref_tools)) no_kwargs
          (text_packet_init 2 1 100 0 ''0000ff'' 2 ''8fff34'' 1 1))
     = Inr (set_renderer (Some (char2bytes ref_tools)) no_kwargs
          (text_packet_init 2 1 100 0 ''0000ff'' 2 ''8fff34'' 1 1))"
proof -
  let ?p = "set_renderer (Some (char2bytes ref_tools)) no_kwargs
          (text_packet_init 2 1 100 0 ''0000ff'' 2 ''8fff34'' 1 1)"
  have lt: "led_type ?p \<noteq> 0" "led_type ?p \<noteq> 1"
    by (simp_all add: set_renderer_def text_packet_init_def)
  have rc: "render_call ?p = Some (char2bytes ref_tools)"
    by (simp add: set_renderer_def text_packet_init_def)
  have ok: "list_all (\<lambda>c. \<not> isl (char2bytes ref_tools c 16 (render_call_param ?p))) ''Hi''"
    by code_simp
  from add_bmp_unknown_led_type_drops
         [OF lt, of 16 8 "Some ''0000ff''" "replicate 16 0" "''Hi''" 16] rc ok
  show ?thesis by blast
qed

section \<open>Fixed-resolution bitmap frames\<close>

subsection \<open>The formatted key determines height and width\<close>

lemma digit_val_nth: "k < 10 \<Longrightarrow> digit_val (''0123456789'' ! k) = Some k"
proof -
  assume "k < 10"
  then have "k \<in> set [0..<10]" by simp
  also have "[0..<10] = [0, 1, 2, 3, 4, 5, 6, 7, 8, 9 :: nat]" by (simp add: upt_rec)
  finally show ?thesis
    by (auto simp: digit_val_def)
qed

lemma digit_val_dec_digit: "digit_val (dec_digit n) = Some (n mod 10)"
  by (simp add: dec_digit_def digit_val_nth)

lemma dval_dec_digit: "dval (dec_digit n) = n mod 10"
  by (simp add: dval_def digit_val_dec_digit)

lemma dec_val_snoc: "dec_val (s @ [c]) = 10 * dec_val s + dval c"
  by (simp add: dec_val_def)

lemma dec_val_dec_nat: "dec_val (dec_nat n) = n"
proof (induction n rule: dec_nat.induct)
  case (1 n)
  show ?case
  proof (cases "n < 10")
    case True
    then show ?thesis
      by (simp add: dec_nat.simps [of n] dec_val_def dval_dec_digit)
  next
    case False
    with 1 show ?thesis
      by (simp add: dec_nat.simps [of n] dec_val_snoc dval_dec_digit)
  qed
qed

lemma dec_nat_digits: "c \<in> set (dec_nat n) \<Longrightarrow> digit_val c \<noteq> None"
proof (induction n rule: dec_nat.induct)
  case (1 n)
  then show ?case
    by (cases "n < 10") (auto simp: dec_nat.simps [of n] digit_val_dec_digit)
qed

lemma dec_nat_not_Nil: "dec_nat n \<noteq> []"
  by (subst dec_nat.simps) simp

lemma digit_val_minus: "digit_val CHR ''-'' = None" and digit_val_x: "digit_val CHR ''x'' = None"
  and digit_val_0: "digit_val CHR ''0'' = Some 0"
  by (simp_all add: digit_val_def)

lemma hd_dec_nat: "hd (dec_nat n) \<noteq> CHR ''-''"
  using dec_nat_digits [of "hd (dec_nat n)" n] dec_nat_not_Nil [of n] digit_val_minus
  by (metis list.set_sel(1))

lemma fmt_02_val_fmt_02: "fmt_02_val (fmt_02 n) = n"
proof -
  obtain c r where cr: "dec_nat (nat n) = c # r" "c \<noteq> CHR ''-''"
    using hd_dec_nat [of "nat n"] dec_nat_not_Nil [of "nat n"] by (cases "dec_nat (nat n)") auto
  have v: "dec_val (c # r) = nat n" using dec_val_dec_nat [of "nat n"] cr by simp
  show ?thesis
  proof (cases "n < 0")
    case True
    then show ?thesis by (simp add: fmt_02_def fmt_02_val_def dec_val_dec_nat)
  next
    case False
    then show ?thesis
      using cr v
      by (auto simp: fmt_02_def fmt_02_val_def dec_val_def dval_def digit_val_0)
  qed
qed

lemma fmt_02_inj: "fmt_02 a = fmt_02 b \<Longrightarrow> a = b"
  by (metis fmt_02_val_fmt_02)

lemma fmt_02_no_x: "CHR ''x'' \<notin> set (fmt_02 n)"
  using dec_nat_digits [of "CHR ''x''"] digit_val_x
  by (auto simp: fmt_02_def)

lemma split_at_sep:
  "x \<notin> set a \<Longrightarrow> x \<notin> set a' \<Longrightarrow> a @ x # b = a' @ x # b' \<Longrightarrow> a = a' \<and> b = b'"
proof (induction a arbitrary: a')
  case Nil
  then show ?case by (cases a') auto
next
  case (Cons y ys)
  then show ?case by (cases a') auto
qed

lemma res_key_inj:
  "fmt_02 h @ CHR ''x'' # fmt_02 w = fmt_02 h' @ CHR ''x'' # fmt_02 w' \<longleftrightarrow> h = h' \<and> w = w'"
proof
  assume "fmt_02 h @ CHR ''x'' # fmt_02 w = fmt_02 h' @ CHR ''x'' # fmt_02 w'"
  from split_at_sep [OF fmt_02_no_x fmt_02_no_x this] show "h = h' \<and> w = w'"
    by (auto dest: fmt_02_inj)
qed simp

lemma res2val_size_keys:
  "res2val_size = map (\<lambda>((h, w), v). (fmt_02 h @ ''x'' @ fmt_02 w, v)) fixed_resolutions"
  by code_simp

lemma map_of_keyed:
  assumes "\<And>a b. f a = f b \<Longrightarrow> a = b"
  shows "map_of (map (\<lambda>(k, v). (f k, v)) xs) (f k) = map_of xs k"
  using assms by (induction xs) auto

lemma map_of_res2val_size:
  "map_of res2val_size (fmt_02 h @ ''x'' @ fmt_02 w) = map_of fixed_resolutions (h, w)"
proof -
  have "map_of (map (\<lambda>(k, v). ((\<lambda>(h, w). fmt_02 h @ ''x'' @ fmt_02 w) k, v)) fixed_resolutions)
          ((\<lambda>(h, w). fmt_02 h @ ''x'' @ fmt_02 w) (h, w)) = map_of fixed_resolutions (h, w)"
    by (rule map_of_keyed) (auto simp: res_key_inj)
  then show ?thesis
    by (simp add: res2val_size_keys case_prod_unfold)
qed

lemma validate_list_simp:
  "validate_list v vs name = (if v \<in> set vs then Inr () else Inl (NotAllowed name))"
  by (simp add: validate_list_def)

lemma in_keys_iff: "k \<in> set (map fst xs) \<longleftrightarrow> map_of xs k \<noteq> None"
  by (simp add: map_of_eq_None_iff)

lemma fixed_resolutions_disc:
  "map_of fixed_resolutions (h, w) = Some (d, n) \<Longrightarrow> 0 \<le> d \<and> d < 256"
  by (auto simp: fixed_resolutions_def split: if_splits)

lemma text_bmp_frame_cases:
  "text_bmp_frame h w col bmp =
     (case map_of fixed_resolutions (h, w) of
        None \<Rightarrow> Inl (NotAllowed ''width'')
      | Some (d, n) \<Rightarrow>
          if int (length bmp) = n
          then bnd (fromhex col) (\<lambda>rgb. Inr (of_int d # rgb @ bmp))
          else Inl (NotAllowed ''bmp size''))"
proof -
  have key: "map_of res2val_size (fmt_02 h @ ''x'' @ fmt_02 w) = map_of fixed_resolutions (h, w)"
    by (rule map_of_res2val_size)
  have mem: "(fmt_02 h @ ''x'' @ fmt_02 w \<in> set (map fst res2val_size))
      = (map_of fixed_resolutions (h, w) \<noteq> None)"
    using key by (simp only: in_keys_iff)
  show ?thesis
    unfolding text_bmp_frame_def Let_def validate_list_simp mem key
    by (auto simp: bytearray_def dest: fixed_resolutions_disc split: option.splits)
qed


lemma hex_val_not_space: "hex_val c \<noteq> None \<Longrightarrow> \<not> is_space c"
  by (auto simp: hex_val_def is_space_def Let_def split: if_splits)

lemma fromhex_hex_append:
  "is_hex_text a \<Longrightarrow> fromhex (a @ b) = bnd (fromhex a) (\<lambda>x. bnd (fromhex b) (\<lambda>y. Inr (x @ y)))"
proof (induction a rule: hex_pairs.induct)
  case 1
  show ?case by (cases "fromhex b") auto
next
  case (2 v)
  then show ?case by (simp add: is_hex_text_def)
next
  case (3 c d r)
  then have "is_hex_text r" by (simp add: is_hex_text_def)
  with 3 show ?case
    by (cases "fromhex r"; cases "fromhex b")
       (auto simp: is_hex_text_def hex_val_not_space split: sum.splits)
qed

lemma fromhex_hex_text: "is_hex_text a \<Longrightarrow> \<exists>bs. fromhex a = Inr bs \<and> 2 * length bs = length a"
proof (induction a rule: hex_pairs.induct)
  case 1
  show ?case by simp
next
  case (2 v)
  then show ?case by (simp add: is_hex_text_def)
next
  case (3 c d r)
  then have "is_hex_text r" by (simp add: is_hex_text_def)
  with 3 show ?case
    by (auto simp: is_hex_text_def hex_val_not_space)
qed

lemma fromhex_prefix:
  assumes "is_hex_text a" "fromhex (a @ b) = Inr out"
  shows "\<exists>x y. fromhex a = Inr x \<and> fromhex b = Inr y \<and> out = x @ y \<and> 2 * length x = length a"
proof -
  from fromhex_hex_text [OF assms(1)] obtain x where x: "fromhex a = Inr x" "2 * length x = length a"
    by blast
  with assms fromhex_hex_append [OF assms(1), of b] show ?thesis
    by (cases "fromhex b") auto
qed

lemma fixed_resolutions_width:
  "map_of fixed_resolutions (h, w) = Some (d, n) \<Longrightarrow> (w + 7) div 8 * 8 = w"
  by (auto simp: fixed_resolutions_def split: if_splits)

text \<open>
  Claim C5. For every (height, width) pair of the resolution table (discriminant \<open>d\<close>,
  byte length \<open>n\<close>): a bitmap of exactly \<open>n\<close> bytes gives the frame \<open>d\<close>, colour, bitmap
  (three colour bytes for a colour of six hex digits), also through \<^verbatim>\<open>add_bmp\<close> on panel
  type 0; a bitmap of any other length, one byte shorter or longer included, fails with
  the \<^verbatim>\<open>bmp size\<close> validation error; and every pair that is not in the table fails with the
  \<^verbatim>\<open>width\<close> not-allowed validation error.
\<close>

theorem text_bmp_frame_resolution_table:
  "(map_of fixed_resolutions (h, w) = Some (d, n) \<longrightarrow>
      (int (length bmp) = n \<longrightarrow>
         text_bmp_frame h w col bmp = bnd (fromhex col) (\<lambda>rgb. Inr (of_int d # rgb @ bmp))
         \<and> (is_hex_text col \<and> length col = 6 \<longrightarrow>
              (\<exists>rgb. length rgb = 3 \<and> text_bmp_frame h w col bmp = Inr (of_int d # rgb @ bmp)))
         \<and> (led_type self = 0 \<and> is_hex_text col \<and> length col = 6 \<longrightarrow>
              (\<exists>rgb. length rgb = 3 \<and> add_bmp h w (Some col) bmp self
                 = Inr (self\<lparr>char_frames := char_frames self @ [of_int d # rgb @ bmp]\<rparr>))))
      \<and> (int (length bmp) \<noteq> n \<longrightarrow> text_bmp_frame h w col bmp = Inl (NotAllowed ''bmp size'')))
   \<and> (map_of fixed_resolutions (h, w) = None \<longrightarrow>
        text_bmp_frame h w col bmp = Inl (NotAllowed ''width''))"
proof -
  have hex6: "\<exists>rgb. fromhex col = Inr rgb \<and> length rgb = 3" if "is_hex_text col" "length col = 6"
    using fromhex_hex_text [OF that(1)] that(2) by auto
  show ?thesis
    by (auto simp: text_bmp_frame_cases add_bmp_def expand_color_def fixed_resolutions_width
        dest!: hex6)
qed

theorem text_bmp_frame_resolution_table_witness:
  "text_bmp_frame 16 8 ''0000ff'' (replicate 16 0x3c) = Inr (0 # [0, 0, 0xff] @ replicate 16 0x3c)
   \<and> text_bmp_frame 16 8 ''0000ff'' (replicate 17 0x3c) = Inl (NotAllowed ''bmp size'')
   \<and> text_bmp_frame 16 8 ''0000ff'' (replicate 15 0x3c) = Inl (NotAllowed ''bmp size'')
   \<and> text_bmp_frame 16 9 ''0000ff'' (replicate 16 0x3c) = Inl (NotAllowed ''width'')"
proof -
  have t: "map_of fixed_resolutions (16, 8) = Some (0, 16)"
    and n: "map_of fixed_resolutions (16, 9) = None"
    by (simp_all add: fixed_resolutions_def)
  have c: "fromhex ''0000ff'' = Inr [0, 0, 0xff]"
    by (simp add: hex_val_def is_space_def)
  from text_bmp_frame_resolution_table [of 16 8 0 16 "replicate 16 0x3c" "''0000ff''"]
       text_bmp_frame_resolution_table [of 16 8 0 16 "replicate 17 0x3c" "''0000ff''"]
       text_bmp_frame_resolution_table [of 16 8 0 16 "replicate 15 0x3c" "''0000ff''"]
       text_bmp_frame_resolution_table [of 16 9 0 16 "replicate 16 0x3c" "''0000ff''"]
       t n c
  show ?thesis by simp
qed


section \<open>Legacy text command: structure of a run\<close>

lemma validate_range_Inr: "validate_range v lo hi name = Inr u \<longleftrightarrow> lo \<le> v \<and> v \<le> hi"
  by (simp add: validate_range_def)

lemma send_text_InrD:
  assumes "send_text T text rm_arg an_arg ss_arg sp_arg col font fx_arg fy_arg fs_arg mh_arg = Inr out"
  shows "\<exists>rm an ss sp fx fy fs mh h1 h3 chars ck.
      to_int rm_arg ''rainbow mode'' = Inr rm \<and> to_int an_arg ''animation'' = Inr an \<and>
      to_int ss_arg ''save slot'' = Inr ss \<and> to_int sp_arg ''speed'' = Inr sp \<and>
      to_int fx_arg ''font offset x'' = Inr fx \<and> to_int fy_arg ''font offset y'' = Inr fy \<and>
      to_int fs_arg ''font size'' = Inr fs \<and> to_int mh_arg ''matrix height'' = Inr mh \<and>
      0 \<le> rm \<and> rm \<le> 9 \<and> 0 \<le> an \<and> an \<le> 7 \<and> 1 \<le> ss \<and> ss \<le> 10 \<and> 0 \<le> sp \<and> sp \<le> 100 \<and>
      1 \<le> length text \<and> length text \<le> 100 \<and> 1 \<le> mh \<and> mh \<le> 128 \<and> an \<noteq> 3 \<and> an \<noteq> 4 \<and>
      switch_endian T (zfill 4 (drop 2 (py_hex (0x1D + int (length text) * (6 + mh * 2))))) = Inr h1 \<and>
      switch_endian T (zfill 4 (drop 2 (py_hex (0xE + int (length text) * (6 + mh * 2))))) = Inr h3 \<and>
      encode_text T text mh col font (fx, fy) (if fs = 0 then mh else fs) = Inr chars \<and>
      CRC32_checksum T (int_to_hex (int (length text))
          @ (''000101'' @ int_to_hex an @ int_to_hex sp @ int_to_hex rm @ ''ffffff00000000'')
          @ chars) = Inr ck \<and>
      fromhex ((h1 @ ''000100'' @ h3 @ ''0000'') @ ck @ zfill 4 (drop 2 (py_hex ss))
          @ int_to_hex (int (length text))
          @ (''000101'' @ int_to_hex an @ int_to_hex sp @ int_to_hex rm @ ''ffffff00000000'')
          @ chars) = Inr out"
  using assms unfolding send_text_def
  by (auto simp: Let_def bnd_eq_Inr validate_range_Inr split: if_splits)

lemma send_text_InrI:
  assumes "to_int rm_arg ''rainbow mode'' = Inr rm" "to_int an_arg ''animation'' = Inr an"
      "to_int ss_arg ''save slot'' = Inr ss" "to_int sp_arg ''speed'' = Inr sp"
      "to_int fx_arg ''font offset x'' = Inr fx" "to_int fy_arg ''font offset y'' = Inr fy"
      "to_int fs_arg ''font size'' = Inr fs" "to_int mh_arg ''matrix height'' = Inr mh"
      "0 \<le> rm \<and> rm \<le> 9" "0 \<le> an \<and> an \<le> 7" "1 \<le> ss \<and> ss \<le> 10" "0 \<le> sp \<and> sp \<le> 100"
      "1 \<le> length text \<and> length text \<le> 100" "1 \<le> mh \<and> mh \<le> 128" "an \<noteq> 3" "an \<noteq> 4"
      "switch_endian T (zfill 4 (drop 2 (py_hex (0x1D + int (length text) * (6 + mh * 2))))) = Inr h1"
      "switch_endian T (zfill 4 (drop 2 (py_hex (0xE + int (length text) * (6 + mh * 2))))) = Inr h3"
      "encode_text T text mh col font (fx, fy) (if fs = 0 then mh else fs) = Inr chars"
      "CRC32_checksum T (int_to_hex (int (length text))
          @ (''000101'' @ int_to_hex an @ int_to_hex sp @ int_to_hex rm @ ''ffffff00000000'')
          @ chars) = Inr ck"
  shows "send_text T text rm_arg an_arg ss_arg sp_arg col font fx_arg fy_arg fs_arg mh_arg =
      fromhex ((h1 @ ''000100'' @ h3 @ ''0000'') @ ck @ zfill 4 (drop 2 (py_hex ss))
          @ int_to_hex (int (length text))
          @ (''000101'' @ int_to_hex an @ int_to_hex sp @ int_to_hex rm @ ''ffffff00000000'')
          @ chars)"
  using assms unfolding send_text_def
  by (auto simp: Let_def validate_range_def)

lemma send_text_fails_34:
  assumes "to_int an_arg ''animation'' = Inr an" and "an = 3 \<or> an = 4"
  shows "\<exists>e. send_text T text rm_arg an_arg ss_arg sp_arg col font fx_arg fy_arg fs_arg mh_arg = Inl e"
proof (cases "send_text T text rm_arg an_arg ss_arg sp_arg col font fx_arg fy_arg fs_arg mh_arg")
  case (Inl e) then show ?thesis by blast
next
  case (Inr out)
  from send_text_InrD [OF Inr] assms show ?thesis by auto
qed

lemma send_text_34_valid:
  assumes "to_int rm_arg ''rainbow mode'' = Inr rm" "to_int an_arg ''animation'' = Inr an"
      "to_int ss_arg ''save slot'' = Inr ss" "to_int sp_arg ''speed'' = Inr sp"
      "to_int fx_arg ''font offset x'' = Inr fx" "to_int fy_arg ''font offset y'' = Inr fy"
      "to_int fs_arg ''font size'' = Inr fs" "to_int mh_arg ''matrix height'' = Inr mh"
      "0 \<le> rm \<and> rm \<le> 9" "1 \<le> ss \<and> ss \<le> 10" "0 \<le> sp \<and> sp \<le> 100"
      "1 \<le> length text \<and> length text \<le> 100" "1 \<le> mh \<and> mh \<le> 128" "an = 3 \<or> an = 4"
  shows "send_text T text rm_arg an_arg ss_arg sp_arg col font fx_arg fy_arg fs_arg mh_arg = Inl UnsupportedAnimation"
  using assms unfolding send_text_def
  by (auto simp: Let_def validate_range_def)

subsection \<open>Animations 3 and 4\<close>

text \<open>
  Claim C6, as amended. A call of \<^verbatim>\<open>send_text\<close> whose animation is 3 or 4 never returns
  a command. When the other arguments pass their conversion and range checks, the error
  is the unsupported-animation error; the range checks run first, so an argument out of
  range is reported instead (see the counterexample).
\<close>

theorem send_text_animation_3_4_fails:
  assumes "to_int an_arg ''animation'' = Inr an" and "an = 3 \<or> an = 4"
  shows "(\<exists>e. send_text T text rm_arg an_arg ss_arg sp_arg col font fx_arg fy_arg fs_arg mh_arg
            = Inl e)
     \<and> (\<forall>rm ss sp fx fy fs mh.
          to_int rm_arg ''rainbow mode'' = Inr rm \<and> to_int ss_arg ''save slot'' = Inr ss \<and>
          to_int sp_arg ''speed'' = Inr sp \<and> to_int fx_arg ''font offset x'' = Inr fx \<and>
          to_int fy_arg ''font offset y'' = Inr fy \<and> to_int fs_arg ''font size'' = Inr fs \<and>
          to_int mh_arg ''matrix height'' = Inr mh \<and>
          0 \<le> rm \<and> rm \<le> 9 \<and> 1 \<le> ss \<and> ss \<le> 10 \<and> 0 \<le> sp \<and> sp \<le> 100 \<and>
          1 \<le> length text \<and> length text \<le> 100 \<and> 1 \<le> mh \<and> mh \<le> 128
          \<longrightarrow> send_text T text rm_arg an_arg ss_arg sp_arg col font fx_arg fy_arg fs_arg mh_arg
                = Inl UnsupportedAnimation)"
proof (intro conjI allI impI)
  show "\<exists>e. send_text T text rm_arg an_arg ss_arg sp_arg col font fx_arg fy_arg fs_arg mh_arg
            = Inl e"
    by (rule send_text_fails_34 [OF assms])
next
  fix rm ss sp fx fy fs mh
  assume h: "to_int rm_arg ''rainbow mode'' = Inr rm \<and> to_int ss_arg ''save slot'' = Inr ss \<and>
          to_int sp_arg ''speed'' = Inr sp \<and> to_int fx_arg ''font offset x'' = Inr fx \<and>
          to_int fy_arg ''font offset y'' = Inr fy \<and> to_int fs_arg ''font size'' = Inr fs \<and>
          to_int mh_arg ''matrix height'' = Inr mh \<and>
          0 \<le> rm \<and> rm \<le> 9 \<and> 1 \<le> ss \<and> ss \<le> 10 \<and> 0 \<le> sp \<and> sp \<le> 100 \<and>
          1 \<le> length text \<and> length text \<le> 100 \<and> 1 \<le> mh \<and> mh \<le> 128"
  show "send_text T text rm_arg an_arg ss_arg sp_arg col font fx_arg fy_arg fs_arg mh_arg
          = Inl UnsupportedAnimation"
    by (rule send_text_34_valid [of rm_arg rm an_arg an ss_arg ss sp_arg sp fx_arg fx fy_arg fy
          fs_arg fs mh_arg mh])
       (use h assms in simp_all)
qed

theorem send_text_animation_3_4_fails_witness:
  "send_text ref_tools ''Hi'' (PInt 0) (PStr ''3'') (PInt 1) (PInt 80) ''ffffff'' ''default''
       (PInt 0) (PInt 0) (PInt 0) (PInt 16) = Inl UnsupportedAnimation
   \<and> send_text ref_tools ''Hi'' (PInt 0) (PInt 4) (PStr ''10'') (PInt 100) ''ffffff''
       ''default'' (PInt 0) (PInt 0) (PInt 0) (PInt 128) = Inl UnsupportedAnimation"
proof -
  have a3: "to_int (PStr ''3'') ''animation'' = Inr 3"
    and s10: "to_int (PStr ''10'') ''save slot'' = Inr 10"
    by code_simp+
  from send_text_animation_3_4_fails [OF a3, of ref_tools "''Hi''" "PInt 0" "PInt 1" "PInt 80"
      "''ffffff''" "''default''" "PInt 0" "PInt 0" "PInt 0" "PInt 16"]
  have 1: "send_text ref_tools ''Hi'' (PInt 0) (PStr ''3'') (PInt 1) (PInt 80) ''ffffff''
       ''default'' (PInt 0) (PInt 0) (PInt 0) (PInt 16) = Inl UnsupportedAnimation"
    by (simp add: to_int_def)
  have a4: "to_int (PInt 4) ''animation'' = Inr 4"
    by (simp add: to_int_def)
  from send_text_animation_3_4_fails [OF a4, of ref_tools "''Hi''" "PInt 0" "PStr ''10''"
      "PInt 100" "''ffffff''" "''default''" "PInt 0" "PInt 0" "PInt 0" "PInt 128"] s10
  have 2: "send_text ref_tools ''Hi'' (PInt 0) (PInt 4) (PStr ''10'') (PInt 100) ''ffffff''
       ''default'' (PInt 0) (PInt 0) (PInt 0) (PInt 128) = Inl UnsupportedAnimation"
    by (simp add: to_int_def)
  from 1 2 show ?thesis by simp
qed

text \<open>
  The claim as first stated fails: with animation 3 and a speed of 200 the call reports
  the speed, not the animation.
\<close>

theorem send_text_animation_3_out_of_range_speed:
  "send_text ref_tools ''A'' (PInt 0) (PInt 3) (PInt 1) (PInt 200) ''ffffff'' ''default''
       (PInt 0) (PInt 0) (PInt 0) (PInt 16) = Inl (OutOfRange ''Speed'')
   \<and> send_text ref_tools ''A'' (PInt 0) (PInt 3) (PInt 1) (PInt 200) ''ffffff'' ''default''
       (PInt 0) (PInt 0) (PInt 0) (PInt 16) \<noteq> Inl UnsupportedAnimation"
  by (simp add: send_text_def to_int_def validate_range_def)

section \<open>New text packets: the size field\<close>

lemma unat_byte_of_int: "unat (of_int n :: byte) = nat (n mod 256)"
  by (simp add: unsigned_of_int take_bit_eq_mod)

lemma le_value_2:
  assumes "0 \<le> n" "n < 65536"
  shows "le_value [of_int n :: byte, of_int (n div 256)] = nat n"
proof -
  have d: "0 \<le> n div 256" "n div 256 < 256"
    using assms by simp_all
  then have m: "(n div 256) mod 256 = n div 256"
    by simp
  have "le_value [of_int n :: byte, of_int (n div 256)]
      = nat (n mod 256) + 256 * nat (n div 256)"
    by (simp add: unat_byte_of_int m)
  moreover have "int (nat (n mod 256) + 256 * nat (n div 256)) = n"
    using d by simp
  then have "nat (n mod 256) + 256 * nat (n div 256) = nat n"
    by (metis nat_int)
  ultimately show ?thesis
    by simp
qed

lemma set_renderer_fields [simp]:
  "led_type (set_renderer rc kw p) = led_type p"
  "animation (set_renderer rc kw p) = animation p"
  "speed (set_renderer rc kw p) = speed p"
  "halign (set_renderer rc kw p) = halign p"
  "valign (set_renderer rc kw p) = valign p"
  "color_mode (set_renderer rc kw p) = color_mode p"
  "color (set_renderer rc kw p) = color p"
  "bg_color_mode (set_renderer rc kw p) = bg_color_mode p"
  "bg_color (set_renderer rc kw p) = bg_color p"
  "char_frames (set_renderer rc kw p) = char_frames p"
  "render_call (set_renderer rc kw p) = rc"
  by (simp_all add: set_renderer_def Let_def)

lemma update_packet_size_Inr:
  assumes "update_packet_size b = Inr cmd" "2 \<le> length b"
  shows "length cmd = length b \<and> le_value (take 2 cmd) = length b \<and> drop 2 cmd = drop 2 b"
  using assms le_value_2 [of "int (length b)"]
  by (auto simp: update_packet_size_def to_bytes_le_2 split: if_splits)

lemma fromhex_marker: "fromhex ''ffff 0001 00'' = Inr [0xff, 0xff, 0x00, 0x01, 0x00]"
  by (simp add: hex_val_def is_space_def)

lemma send_text2_inner_InrD:
  assumes "send_text2_inner T text lt an ss sp ha va rm col bgm bgc font fx fy fs mh = Inr cmd"
  shows "\<exists>mm pkt prop_char checksum slot tsize_bytes.
      map_of (if lt = 0 then minmax_width00 else minmax_width80) mh = Some mm \<and>
      add_text text mh (Some col)
        (set_renderer (Some (char2bytes T))
           \<lparr>kw_font = Some font, kw_font_offset = None, kw_font_size = Some fs,
            kw_minmax_width = Some mm\<rparr>
           (text_packet_init lt an sp rm col bgm bgc ha va)) = Inr pkt \<and>
      get_packet pkt = Inr prop_char \<and>
      to_bytes_le (binCRC32_checksum prop_char) 4 = Inr checksum \<and>
      bytearray [0, ss] = Inr slot \<and>
      to_bytes_le (int (length prop_char) + 4 + 4 + 2) 4 = Inr tsize_bytes \<and>
      update_packet_size (([0xff, 0xff, 0x00, 0x01, 0x00] @ tsize_bytes @ checksum @ slot) @ prop_char)
        = Inr cmd"
  using assms unfolding send_text2_inner_def fromhex_marker
  by (auto simp: Let_def bnd_eq_Inr split: option.splits)

lemma send_text2_inner_size:
  assumes "send_text2_inner T text lt an ss sp ha va rm col bgm bgc font fx fy fs mh = Inr cmd"
  shows "2 \<le> length cmd \<and> le_value (take 2 cmd) = length cmd"
proof -
  from send_text2_inner_InrD [OF assms] obtain prop_char checksum slot tsize_bytes where
    u: "update_packet_size (([0xff, 0xff, 0x00, 0x01, 0x00] @ tsize_bytes @ checksum @ slot) @ prop_char)
        = Inr cmd"
    by blast
  from update_packet_size_Inr [OF u] show ?thesis by simp
qed

lemma call_send_text2_InrD:
  assumes "call_send_text2 T text lt kw = Inr cmd"
  shows "\<exists>an ss sp ha va rm col bgm bgc font fx fy fs mh.
     send_text2_inner T text lt an ss sp ha va rm col bgm bgc font fx fy fs mh = Inr cmd"
  using assms unfolding call_send_text2_def
  by (simp add: bnd_eq_Inr split: if_splits) blast

lemma crc_empty_packet:
  "binCRC32_checksum [0, 0, 0, 0, 0, 80, 0, 0xff, 0xff, 0xff, 0, 0xff, 0xff, 0xff] = 0x1FC138D3"
  by (simp add: binCRC32_checksum_def crc32_def crc32_byte_def crc32_bit_def)


lemma send_text2_inner_run:
  assumes "map_of (if lt = 0 then minmax_width00 else minmax_width80) mh = Some mm"
    and "add_text text mh (Some col)
        (set_renderer (Some (char2bytes T))
           \<lparr>kw_font = Some font, kw_font_offset = None, kw_font_size = Some fs,
            kw_minmax_width = Some mm\<rparr>
           (text_packet_init lt an sp rm col bgm bgc ha va)) = Inr pkt"
    and "get_packet pkt = Inr prop_char"
    and "to_bytes_le (binCRC32_checksum prop_char) 4 = Inr checksum"
    and "bytearray [0, ss] = Inr slot"
    and "to_bytes_le (int (length prop_char) + 4 + 4 + 2) 4 = Inr tsize_bytes"
  shows "send_text2_inner T text lt an ss sp ha va rm col bgm bgc font fx fy fs mh =
      update_packet_size (([0xff, 0xff, 0x00, 0x01, 0x00] @ tsize_bytes @ checksum @ slot) @ prop_char)"
  using assms unfolding send_text2_inner_def fromhex_marker
  by (simp add: Let_def)

lemma empty_run:
  "send_text2_inner T [] 0 0 0x65 80 0 0 0 ''ffffff'' 0 ''000000'' ''default'' 0 0 0 16
     = Inr [29, 0, 0, 1, 0, 24, 0, 0, 0, 0xd3, 0x38, 0xc1, 0x1f, 0, 0x65,
            0, 0, 0, 0, 0, 80, 0, 0xff, 0xff, 0xff, 0, 0xff, 0xff, 0xff]"
proof -
  let ?p = "set_renderer (Some (char2bytes T))
           \<lparr>kw_font = Some ''default'', kw_font_offset = None, kw_font_size = Some 0,
            kw_minmax_width = Some (8, 16, 8)\<rparr>
           (text_packet_init 0 0 80 0 ''ffffff'' 0 ''000000'' 0 0)"
  have 1: "map_of (if (0::int) = 0 then minmax_width00 else minmax_width80) 16 = Some (8, 16, 8)"
    by (simp add: minmax_width00_def)
  have 2: "add_text [] 16 (Some ''ffffff'') ?p = Inr ?p"
    by (simp add: add_text_def)
  have 3: "get_packet ?p = Inr [0, 0, 0, 0, 0, 80, 0, 0xff, 0xff, 0xff, 0, 0xff, 0xff, 0xff]"
    by (simp add: text_packet_init_def get_packet_def to_bytes_le_2 bytearray_def
        hex_val_def is_space_def)
  have 4: "to_bytes_le (binCRC32_checksum [0, 0, 0, 0, 0, 80, 0, 0xff, 0xff, 0xff, 0, 0xff, 0xff, 0xff]) 4
      = Inr [0xd3, 0x38, 0xc1, 0x1f]"
    by (simp add: crc_empty_packet to_bytes_le_4)
  have 5: "bytearray [0, 0x65] = Inr [0, 0x65]"
    by (simp add: bytearray_def)
  have 6: "to_bytes_le (int (length [0, 0, 0, 0, 0, 80, 0, 0xff, 0xff, 0xff, 0, 0xff, 0xff, 0xff :: byte]) + 4 + 4 + 2) 4
      = Inr [24, 0, 0, 0]"
    by (simp add: to_bytes_le_4)
  show ?thesis
    by (simp add: send_text2_inner_run [OF 1 2 3 4 5 6] update_packet_size_def to_bytes_le_2)
qed


lemma render_call_param_set_renderer [simp]:
  "render_call_param (set_renderer rc kw p) = (if kw \<noteq> no_kwargs then kw else render_call_param p)"
  by (simp add: set_renderer_def Let_def)

lemma send_text2_defaults:
  "send_text2 T text [] =
     send_text2_inner T text 0 0 0x65 80 0 0 0 ''ffffff'' 0 ''000000'' ''default'' 0 0 0 16"
  by (simp add: send_text2_def call_send_text2_def int_arg_def str_arg_def)

lemma crc_hi_packet:
  "binCRC32_checksum
     [2, 0, 0, 0, 0, 80, 0, 0xff, 0xff, 0xff, 0, 0xff, 0xff, 0xff, 0, 0xff, 0xff, 0xff,
      0xc3, 0xc3, 0xc3, 0xc3, 0xc3, 0xc3, 0xc3, 0xc3, 0xc3, 0xc3, 0xc3, 0xc3, 0xc3,
      0xc3, 0xc3, 0xc3, 0, 0xff, 0xff, 0xff, 0xc3, 0xc3, 0xc3, 0xc3, 0xc3, 0xc3, 0xc3,
      0xc3, 0xc3, 0xc3, 0xc3, 0xc3, 0xc3, 0xc3, 0xc3, 0xc3]
   = 0x6A4D1F72"
  by (simp add: binCRC32_checksum_def crc32_def crc32_byte_def crc32_bit_def)

lemma hi_run:
  "send_text2_inner ref_tools ''Hi'' 0 0 0x65 80 0 0 0 ''ffffff'' 0 ''000000'' ''default'' 0 0 0 16
     = Inr [69, 0, 0, 1, 0, 64, 0, 0, 0, 114, 31, 77, 106, 0, 0x65, 2, 0, 0, 0, 0, 80, 0,
          0xff, 0xff, 0xff, 0, 0xff, 0xff, 0xff, 0, 0xff, 0xff, 0xff, 0xc3, 0xc3, 0xc3,
          0xc3, 0xc3, 0xc3, 0xc3, 0xc3, 0xc3, 0xc3, 0xc3, 0xc3, 0xc3, 0xc3, 0xc3, 0xc3,
          0, 0xff, 0xff, 0xff, 0xc3, 0xc3, 0xc3, 0xc3, 0xc3, 0xc3, 0xc3, 0xc3, 0xc3,
          0xc3, 0xc3, 0xc3, 0xc3, 0xc3, 0xc3, 0xc3]"
proof -
  let ?kw = "\<lparr>kw_font = Some ''default'', kw_font_offset = None, kw_font_size = Some 0,
            kw_minmax_width = Some (8, 16, 8)\<rparr>"
  let ?p = "set_renderer (Some (char2bytes ref_tools)) ?kw
           (text_packet_init 0 0 80 0 ''ffffff'' 0 ''000000'' 0 0)"
  let ?f = "[0, 0xff, 0xff, 0xff, 0xc3, 0xc3, 0xc3, 0xc3, 0xc3, 0xc3, 0xc3, 0xc3,
              0xc3, 0xc3, 0xc3, 0xc3, 0xc3, 0xc3, 0xc3, 0xc3] :: byte list"
  have kw: "?kw \<noteq> no_kwargs"
    by (simp add: no_kwargs_def)
  have r: "char2bytes ref_tools CHR ''H'' 16 ?kw = Inr ([0xc3, 0xc3, 0xc3, 0xc3, 0xc3, 0xc3, 0xc3, 0xc3, 0xc3, 0xc3, 0xc3, 0xc3, 0xc3,
          0xc3, 0xc3, 0xc3], 8)"
    "char2bytes ref_tools CHR ''i'' 16 ?kw = Inr ([0xc3, 0xc3, 0xc3, 0xc3, 0xc3, 0xc3, 0xc3, 0xc3, 0xc3, 0xc3, 0xc3, 0xc3, 0xc3,
          0xc3, 0xc3, 0xc3], 8)"
    by code_simp+
  have 1: "map_of (if (0::int) = 0 then minmax_width00 else minmax_width80) 16 = Some (8, 16, 8)"
    by (simp add: minmax_width00_def)
  have 2: "add_text ''Hi'' 16 (Some ''ffffff'') ?p = Inr (?p\<lparr>char_frames := [?f, ?f]\<rparr>)"
    by (simp add: add_text_def expand_color_def kw r add_bmp_def text_bmp_frame_cases
        fixed_resolutions_def hex_val_def is_space_def text_packet_init_def)
  have 3: "get_packet (?p\<lparr>char_frames := [?f, ?f]\<rparr>) = Inr
      [2, 0, 0, 0, 0, 80, 0, 0xff, 0xff, 0xff, 0, 0xff, 0xff, 0xff, 0, 0xff, 0xff, 0xff,
      0xc3, 0xc3, 0xc3, 0xc3, 0xc3, 0xc3, 0xc3, 0xc3, 0xc3, 0xc3, 0xc3, 0xc3, 0xc3,
      0xc3, 0xc3, 0xc3, 0, 0xff, 0xff, 0xff, 0xc3, 0xc3, 0xc3, 0xc3, 0xc3, 0xc3, 0xc3,
      0xc3, 0xc3, 0xc3, 0xc3, 0xc3, 0xc3, 0xc3, 0xc3, 0xc3]"
    by (simp add: text_packet_init_def get_packet_def to_bytes_le_2 bytearray_def hex_val_def
        is_space_def)
  have 4: "to_bytes_le (binCRC32_checksum
      [2, 0, 0, 0, 0, 80, 0, 0xff, 0xff, 0xff, 0, 0xff, 0xff, 0xff, 0, 0xff, 0xff, 0xff,
      0xc3, 0xc3, 0xc3, 0xc3, 0xc3, 0xc3, 0xc3, 0xc3, 0xc3, 0xc3, 0xc3, 0xc3, 0xc3,
      0xc3, 0xc3, 0xc3, 0, 0xff, 0xff, 0xff, 0xc3, 0xc3, 0xc3, 0xc3, 0xc3, 0xc3, 0xc3,
      0xc3, 0xc3, 0xc3, 0xc3, 0xc3, 0xc3, 0xc3, 0xc3, 0xc3]) 4
      = Inr [114, 31, 77, 106]"
    by (simp add: crc_hi_packet to_bytes_le_4)
  have 5: "bytearray [0, 0x65] = Inr [0, 0x65]"
    by (simp add: bytearray_def)
  have 6: "to_bytes_le (int (length
      ([2, 0, 0, 0, 0, 80, 0, 0xff, 0xff, 0xff, 0, 0xff, 0xff, 0xff, 0, 0xff, 0xff, 0xff,
      0xc3, 0xc3, 0xc3, 0xc3, 0xc3, 0xc3, 0xc3, 0xc3, 0xc3, 0xc3, 0xc3, 0xc3, 0xc3,
      0xc3, 0xc3, 0xc3, 0, 0xff, 0xff, 0xff, 0xc3, 0xc3, 0xc3, 0xc3, 0xc3, 0xc3, 0xc3,
      0xc3, 0xc3, 0xc3, 0xc3, 0xc3, 0xc3, 0xc3, 0xc3, 0xc3] :: byte list)) + 4 + 4 + 2) 4
      = Inr [64, 0, 0, 0]"
    by (simp add: to_bytes_le_4)
  show ?thesis
    by (simp add: send_text2_inner_run [OF 1 2 3 4 5 6] update_packet_size_def to_bytes_le_2)
qed


text \<open>
  Claim C1, as amended. For every command returned by \<^verbatim>\<open>send_text2_\<close>, and so by
  \<^verbatim>\<open>send_text1\<close> and \<^verbatim>\<open>send_text2\<close>, the leading 2-byte little-endian size field equals the
  byte count of the whole command, the size field included: the payload after the field
  is two bytes shorter than the field says.
\<close>

theorem new_text_packet_size_field:
  assumes "send_text2_inner T text lt an ss sp ha va rm col bgm bgc font fx fy fs mh = Inr cmd
     \<or> send_text1 T text kwargs = Inr cmd \<or> send_text2 T text kwargs = Inr cmd"
  shows "2 \<le> length cmd \<and> le_value (take 2 cmd) = length cmd
     \<and> le_value (take 2 cmd) = length (drop 2 cmd) + 2"
proof -
  from assms obtain lt' an' ss' sp' ha' va' rm' col' bgm' bgc' font' fx' fy' fs' mh' where
    "send_text2_inner T text lt' an' ss' sp' ha' va' rm' col' bgm' bgc' font' fx' fy' fs' mh' = Inr cmd"
    unfolding send_text1_def send_text2_def bnd_eq_Inr
    by (blast dest: call_send_text2_InrD)
  from send_text2_inner_size [OF this] show ?thesis by simp arith
qed

theorem new_text_packet_size_field_witness:
  "send_text2_inner ref_tools ''Hi'' 0 0 0x65 80 0 0 0 ''ffffff'' 0 ''000000'' ''default'' 0 0 0 16
     = Inr [69, 0, 0, 1, 0, 64, 0, 0, 0, 114, 31, 77, 106, 0, 0x65, 2, 0, 0, 0, 0, 80, 0,
       0xff, 0xff, 0xff, 0, 0xff, 0xff, 0xff, 0, 0xff, 0xff, 0xff, 0xc3, 0xc3, 0xc3,
       0xc3, 0xc3, 0xc3, 0xc3, 0xc3, 0xc3, 0xc3, 0xc3, 0xc3, 0xc3, 0xc3, 0xc3, 0xc3,
       0, 0xff, 0xff, 0xff, 0xc3, 0xc3, 0xc3, 0xc3, 0xc3, 0xc3, 0xc3, 0xc3, 0xc3,
       0xc3, 0xc3, 0xc3, 0xc3, 0xc3, 0xc3, 0xc3]
   \<and> le_value (take 2 ([69, 0, 0, 1, 0, 64, 0, 0, 0, 114, 31, 77, 106, 0, 0x65, 2, 0, 0, 0, 0, 80, 0,
       0xff, 0xff, 0xff, 0, 0xff, 0xff, 0xff, 0, 0xff, 0xff, 0xff, 0xc3, 0xc3, 0xc3,
       0xc3, 0xc3, 0xc3, 0xc3, 0xc3, 0xc3, 0xc3, 0xc3, 0xc3, 0xc3, 0xc3, 0xc3, 0xc3,
       0, 0xff, 0xff, 0xff, 0xc3, 0xc3, 0xc3, 0xc3, 0xc3, 0xc3, 0xc3, 0xc3, 0xc3,
       0xc3, 0xc3, 0xc3, 0xc3, 0xc3, 0xc3, 0xc3] :: byte list)) = 69"
proof -
  let ?cmd = "[69, 0, 0, 1, 0, 64, 0, 0, 0, 114, 31, 77, 106, 0, 0x65, 2, 0, 0, 0, 0, 80, 0,
       0xff, 0xff, 0xff, 0, 0xff, 0xff, 0xff, 0, 0xff, 0xff, 0xff, 0xc3, 0xc3, 0xc3,
       0xc3, 0xc3, 0xc3, 0xc3, 0xc3, 0xc3, 0xc3, 0xc3, 0xc3, 0xc3, 0xc3, 0xc3, 0xc3,
       0, 0xff, 0xff, 0xff, 0xc3, 0xc3, 0xc3, 0xc3, 0xc3, 0xc3, 0xc3, 0xc3, 0xc3,
       0xc3, 0xc3, 0xc3, 0xc3, 0xc3, 0xc3, 0xc3] :: byte list"
  from new_text_packet_size_field [OF disjI1, OF hi_run]
  have "le_value (take 2 ?cmd) = length ?cmd"
    by (rule conjunct1 [OF conjunct2])
  then have "le_value (take 2 ?cmd) = 69"
    by simp
  with hi_run show ?thesis
    by (rule conjI)
qed

text \<open>
  The claim as first stated fails: for the empty text and the default arguments the
  command has 29 bytes, the size field says 29, and 27 bytes follow the field.
\<close>

theorem new_text_packet_size_field_counts_itself:
  "send_text2 ref_tools [] [] = Inr [29, 0, 0, 1, 0, 24, 0, 0, 0, 0xd3, 0x38, 0xc1, 0x1f, 0, 0x65,
       0, 0, 0, 0, 0, 80, 0, 0xff, 0xff, 0xff, 0, 0xff, 0xff, 0xff]
   \<and> le_value (take 2 ([29, 0, 0, 1, 0, 24, 0, 0, 0, 0xd3, 0x38, 0xc1, 0x1f, 0, 0x65,
       0, 0, 0, 0, 0, 80, 0, 0xff, 0xff, 0xff, 0, 0xff, 0xff, 0xff] :: byte list)) = 29
   \<and> length (drop 2 ([29, 0, 0, 1, 0, 24, 0, 0, 0, 0xd3, 0x38, 0xc1, 0x1f, 0, 0x65,
       0, 0, 0, 0, 0, 80, 0, 0xff, 0xff, 0xff, 0, 0xff, 0xff, 0xff] :: byte list)) = 27
   \<and> le_value (take 2 ([29, 0, 0, 1, 0, 24, 0, 0, 0, 0xd3, 0x38, 0xc1, 0x1f, 0, 0x65,
       0, 0, 0, 0, 0, 80, 0, 0xff, 0xff, 0xff, 0, 0xff, 0xff, 0xff] :: byte list)) \<noteq> length (drop 2 ([29, 0, 0, 1, 0, 24, 0, 0, 0, 0xd3, 0x38, 0xc1, 0x1f, 0, 0x65,
       0, 0, 0, 0, 0, 80, 0, 0xff, 0xff, 0xff, 0, 0xff, 0xff, 0xff] :: byte list))"
  by (simp add: send_text2_defaults empty_run)

section \<open>Legacy text command: the fields of the output\<close>

subsection \<open>Hex text and its bytes\<close>

lemma hex_val_nth: "k < 16 \<Longrightarrow> hex_val (''0123456789abcdef'' ! k) = Some k"
proof -
  assume "k < 16"
  then have "k \<in> set [0..<16]" by simp
  also have "[0..<16] = [0, 1, 2, 3, 4, 5, 6, 7, 8, 9, 10, 11, 12, 13, 14, 15 :: nat]"
    by (simp add: upt_rec)
  finally show ?thesis
    by (auto simp: hex_val_def)
qed

lemma hex_val_hex_digit: "hex_val (hex_digit n) = Some (n mod 16)"
  by (simp add: hex_digit_def hex_val_nth)

lemma hex_digit_not_sign: "hex_digit n \<noteq> CHR ''+''" "hex_digit n \<noteq> CHR ''-''"
  using hex_val_hex_digit [of n] by (auto simp: hex_val_def)

lemma hex_digit_0: "hex_digit 0 = CHR ''0''"
  by (simp add: hex_digit_def)

lemma hex_nat_1: "n < 16 \<Longrightarrow> hex_nat n = [hex_digit n]"
  by (simp add: hex_nat.simps [of n])

lemma hex_nat_2: "16 \<le> n \<Longrightarrow> n < 256 \<Longrightarrow> hex_nat n = [hex_digit (n div 16), hex_digit n]"
  by (simp add: hex_nat.simps [of n] hex_nat_1)

lemma hex_nat_3:
  "256 \<le> n \<Longrightarrow> n < 4096 \<Longrightarrow> hex_nat n = [hex_digit (n div 256), hex_digit (n div 16), hex_digit n]"
  using hex_nat_2 [of "n div 16"]
  by (simp add: hex_nat.simps [of n] div_mult2_eq [symmetric])

lemma hex_nat_4:
  "4096 \<le> n \<Longrightarrow> n < 65536 \<Longrightarrow> hex_nat n = hex4 n"
  using hex_nat_3 [of "n div 16"]
  by (simp add: hex_nat.simps [of n] div_mult2_eq [symmetric] hex4_def)

lemma replicate_2: "replicate 2 x = [x, x]" and replicate_3: "replicate 3 x = [x, x, x]"
  by (simp_all add: numeral_2_eq_2 numeral_3_eq_3)

lemma zfill_hex4:
  assumes "0 \<le> v" "v < 65536"
  shows "zfill 4 (drop 2 (py_hex v)) = hex4 (nat v)"
proof -
  let ?n = "nat v"
  have n: "?n < 65536" using assms by simp
  have p: "drop 2 (py_hex v) = hex_nat ?n" using assms by (simp add: py_hex_def)
  consider "?n < 16" | "16 \<le> ?n" "?n < 256" | "256 \<le> ?n" "?n < 4096" | "4096 \<le> ?n"
    by linarith
  then show ?thesis
  proof cases
    case 1
    then show ?thesis
      by (simp add: p hex_nat_1 zfill_def hex4_def hex_digit_not_sign hex_digit_0 replicate_3)
  next
    case 2
    then show ?thesis
      by (simp add: p hex_nat_2 zfill_def hex4_def hex_digit_not_sign hex_digit_0 replicate_2)
  next
    case 3
    then show ?thesis
      by (simp add: p hex_nat_3 zfill_def hex4_def hex_digit_not_sign hex_digit_0)
  next
    case 4
    then show ?thesis
      using n by (simp add: p hex_nat_4 zfill_def hex4_def)
  qed
qed

lemma is_hex_text_hex4: "is_hex_text (hex4 n)" "length (hex4 n) = 4"
  by (simp_all add: is_hex_text_def hex4_def hex_val_hex_digit)

lemma int_to_hex_byte:
  assumes "0 \<le> n" "n < 256"
  shows "int_to_hex n = [hex_digit (nat n div 16), hex_digit (nat n)]"
proof (cases "n < 16")
  case True
  then show ?thesis
    using assms by (simp add: int_to_hex_def fmt_02x_def hex_nat_1 hex_digit_0)
next
  case False
  then show ?thesis
    using assms by (simp add: int_to_hex_def fmt_02x_def hex_nat_2)
qed

lemma fromhex_int_to_hex:
  assumes "0 \<le> n" "n < 256"
  shows "fromhex (int_to_hex n) = Inr [of_int n]"
proof -
  have "nat n div 16 < 16" using assms by simp
  then have "16 * (nat n div 16 mod 16) + nat n mod 16 = nat n"
    by simp
  then show ?thesis
    using assms
    by (simp add: int_to_hex_byte hex_val_hex_digit hex_val_not_space)
qed

lemma is_hex_text_int_to_hex: "0 \<le> n \<Longrightarrow> n < 256 \<Longrightarrow> is_hex_text (int_to_hex n)"
  by (simp add: int_to_hex_byte is_hex_text_def hex_val_hex_digit)

lemma is_hex_text_append: "is_hex_text a \<Longrightarrow> is_hex_text b \<Longrightarrow> is_hex_text (a @ b)"
  by (simp add: is_hex_text_def)

lemma fromhex_field:
  assumes "is_hex_text a" "is_hex_text f" "fromhex (a @ f @ r) = Inr out"
  shows "fromhex f = Inr (take (length f div 2) (drop (length a div 2) out))"
proof -
  from fromhex_prefix [OF assms(1,3)] obtain x y where
    x: "fromhex (f @ r) = Inr y" "out = x @ y" "2 * length x = length a"
    by blast
  from fromhex_prefix [OF assms(2) x(1)] obtain u v where
    u: "fromhex f = Inr u" "y = u @ v" "2 * length u = length f"
    by blast
  have "length a div 2 = length x" "length f div 2 = length u"
    using x u by simp_all
  then show ?thesis
    using x u by simp
qed

lemma length_field_range:
  fixes a m :: int
  assumes "0 \<le> a" "a \<le> 100" "1 \<le> m" "m \<le> 128"
  shows "0 \<le> a * (6 + m * 2)" "a * (6 + m * 2) \<le> 26200"
proof -
  show "0 \<le> a * (6 + m * 2)" using assms by simp
  have "a * (6 + m * 2) \<le> 100 * 262"
    by (rule mult_mono) (use assms in simp_all)
  then show "a * (6 + m * 2) \<le> 26200" by simp
qed

lemma is_hex_text_consts:
  "is_hex_text ''000100''" "is_hex_text ''0000''" "is_hex_text []"
  by (simp_all add: is_hex_text_def hex_val_def)

lemma send_text_fieldsE:
  assumes "send_text T text rm_arg an_arg ss_arg sp_arg col font fx_arg fy_arg fs_arg mh_arg = Inr out"
  obtains rm an ss sp fx fy fs mh h1 h3 chars ck where
    "to_int rm_arg ''rainbow mode'' = Inr rm" "to_int an_arg ''animation'' = Inr an"
    "to_int ss_arg ''save slot'' = Inr ss" "to_int sp_arg ''speed'' = Inr sp"
    "to_int fx_arg ''font offset x'' = Inr fx" "to_int fy_arg ''font offset y'' = Inr fy"
    "to_int fs_arg ''font size'' = Inr fs" "to_int mh_arg ''matrix height'' = Inr mh"
    "switch_endian T (hex4 (nat (0x1D + int (length text) * (6 + 2 * mh)))) = Inr h1"
    "switch_endian T (hex4 (nat (0xE + int (length text) * (6 + 2 * mh)))) = Inr h3"
    "encode_text T text mh col font (fx, fy) (if fs = 0 then mh else fs) = Inr chars"
    "CRC32_checksum T (int_to_hex (int (length text))
          @ (''000101'' @ int_to_hex an @ int_to_hex sp @ int_to_hex rm @ ''ffffff00000000'')
          @ chars) = Inr ck"
    "fromhex (h1 @ ''000100'' @ h3 @ ''0000'' @ ck @ hex4 (nat ss)
          @ int_to_hex (int (length text))
          @ (''000101'' @ int_to_hex an @ int_to_hex sp @ int_to_hex rm @ ''ffffff00000000'')
          @ chars) = Inr out"
    "is_hex_text h1 \<and> length h1 = 4 \<longrightarrow> fromhex h1 = Inr (take 2 out)"
    "is_hex_text h1 \<and> length h1 = 4 \<and> is_hex_text h3 \<and> length h3 = 4 \<longrightarrow>
       fromhex h3 = Inr (take 2 (drop 5 out))"
    "is_hex_text h1 \<and> length h1 = 4 \<and> is_hex_text h3 \<and> length h3 = 4 \<and>
     is_hex_text ck \<and> length ck = 8 \<longrightarrow>
       fromhex ck = Inr (take 4 (drop 9 out)) \<and> take 1 (drop 15 out) = [of_nat (length text)]"
proof -
  from send_text_InrD [OF assms] obtain rm an ss sp fx fy fs mh h1 h3 chars ck where
    c: "to_int rm_arg ''rainbow mode'' = Inr rm" "to_int an_arg ''animation'' = Inr an"
      "to_int ss_arg ''save slot'' = Inr ss" "to_int sp_arg ''speed'' = Inr sp"
      "to_int fx_arg ''font offset x'' = Inr fx" "to_int fy_arg ''font offset y'' = Inr fy"
      "to_int fs_arg ''font size'' = Inr fs" "to_int mh_arg ''matrix height'' = Inr mh"
    and r: "1 \<le> ss" "ss \<le> 10" "1 \<le> length text" "length text \<le> 100" "1 \<le> mh" "mh \<le> 128"
    and s1: "switch_endian T (zfill 4 (drop 2 (py_hex (0x1D + int (length text) * (6 + mh * 2))))) = Inr h1"
    and s3: "switch_endian T (zfill 4 (drop 2 (py_hex (0xE + int (length text) * (6 + mh * 2))))) = Inr h3"
    and e: "encode_text T text mh col font (fx, fy) (if fs = 0 then mh else fs) = Inr chars"
    and k: "CRC32_checksum T (int_to_hex (int (length text))
          @ (''000101'' @ int_to_hex an @ int_to_hex sp @ int_to_hex rm @ ''ffffff00000000'')
          @ chars) = Inr ck"
    and f: "fromhex ((h1 @ ''000100'' @ h3 @ ''0000'') @ ck @ zfill 4 (drop 2 (py_hex ss))
          @ int_to_hex (int (length text))
          @ (''000101'' @ int_to_hex an @ int_to_hex sp @ int_to_hex rm @ ''ffffff00000000'')
          @ chars) = Inr out"
    by blast
  let ?props = "''000101'' @ int_to_hex an @ int_to_hex sp @ int_to_hex rm @ ''ffffff00000000''"
  let ?noc = "int_to_hex (int (length text))"
  have g: "0 \<le> int (length text) * (6 + mh * 2)" "int (length text) * (6 + mh * 2) \<le> 26200"
    using length_field_range [of "int (length text)" mh] r by simp_all
  have z1: "zfill 4 (drop 2 (py_hex (0x1D + int (length text) * (6 + mh * 2))))
      = hex4 (nat (0x1D + int (length text) * (6 + 2 * mh)))"
    using g by (simp add: zfill_hex4 mult.commute)
  have z3: "zfill 4 (drop 2 (py_hex (0xE + int (length text) * (6 + mh * 2))))
      = hex4 (nat (0xE + int (length text) * (6 + 2 * mh)))"
    using g by (simp add: zfill_hex4 mult.commute)
  have zs: "zfill 4 (drop 2 (py_hex ss)) = hex4 (nat ss)"
    using r by (simp add: zfill_hex4)
  have f': "fromhex (h1 @ ''000100'' @ h3 @ ''0000'' @ ck @ hex4 (nat ss) @ ?noc @ ?props @ chars)
      = Inr out"
    using f by (simp add: zs)
  have n: "fromhex ?noc = Inr [of_nat (length text)]" "is_hex_text ?noc" "length ?noc = 2"
    using r fromhex_int_to_hex [of "int (length text)"] is_hex_text_int_to_hex [of "int (length text)"]
    by (simp_all add: int_to_hex_byte)
  have p1: "fromhex h1 = Inr (take 2 out)" if h: "is_hex_text h1" "length h1 = 4"
  proof -
    have "fromhex ([] @ h1 @ (''000100'' @ h3 @ ''0000'' @ ck @ hex4 (nat ss) @ ?noc @ ?props @ chars))
        = Inr out"
      using f' by simp
    from fromhex_field [OF is_hex_text_consts(3) h(1) this] show ?thesis
      by (simp add: h)
  qed
  have p3: "fromhex h3 = Inr (take 2 (drop 5 out))"
    if h: "is_hex_text h1" "length h1 = 4" "is_hex_text h3" "length h3 = 4"
  proof -
    have a: "is_hex_text (h1 @ ''000100'')"
      by (intro is_hex_text_append is_hex_text_consts h)
    have "fromhex ((h1 @ ''000100'') @ h3 @ (''0000'' @ ck @ hex4 (nat ss) @ ?noc @ ?props @ chars))
        = Inr out"
      using f' by simp
    from fromhex_field [OF a h(3) this] show ?thesis
      by (simp add: h)
  qed
  have pk: "fromhex ck = Inr (take 4 (drop 9 out))"
    if h: "is_hex_text h1" "length h1 = 4" "is_hex_text h3" "length h3 = 4"
      "is_hex_text ck" "length ck = 8"
  proof -
    have a: "is_hex_text (h1 @ ''000100'' @ h3 @ ''0000'')"
      by (intro is_hex_text_append is_hex_text_consts h)
    have "fromhex ((h1 @ ''000100'' @ h3 @ ''0000'') @ ck @ (hex4 (nat ss) @ ?noc @ ?props @ chars))
        = Inr out"
      using f' by simp
    from fromhex_field [OF a h(5) this] show ?thesis
      by (simp add: h)
  qed
  have pn: "take 1 (drop 15 out) = [of_nat (length text)]"
    if h: "is_hex_text h1" "length h1 = 4" "is_hex_text h3" "length h3 = 4"
      "is_hex_text ck" "length ck = 8"
  proof -
    have a: "is_hex_text (h1 @ ''000100'' @ h3 @ ''0000'' @ ck @ hex4 (nat ss))"
      by (intro is_hex_text_append is_hex_text_consts is_hex_text_hex4 h)
    have "fromhex ((h1 @ ''000100'' @ h3 @ ''0000'' @ ck @ hex4 (nat ss)) @ ?noc @ (?props @ chars))
        = Inr out"
      using f' by simp
    from fromhex_field [OF a n(2) this] show ?thesis
      by (simp add: h n is_hex_text_hex4)
  qed
  have s1': "switch_endian T (hex4 (nat (0x1D + int (length text) * (6 + 2 * mh)))) = Inr h1"
    using s1 by (simp only: z1)
  have s3': "switch_endian T (hex4 (nat (0xE + int (length text) * (6 + 2 * mh)))) = Inr h3"
    using s3 by (simp only: z3)
  have q1: "is_hex_text h1 \<and> length h1 = 4 \<longrightarrow> fromhex h1 = Inr (take 2 out)"
    using p1 by blast
  have q3: "is_hex_text h1 \<and> length h1 = 4 \<and> is_hex_text h3 \<and> length h3 = 4 \<longrightarrow>
       fromhex h3 = Inr (take 2 (drop 5 out))"
    using p3 by blast
  have qk: "is_hex_text h1 \<and> length h1 = 4 \<and> is_hex_text h3 \<and> length h3 = 4 \<and>
     is_hex_text ck \<and> length ck = 8 \<longrightarrow>
       fromhex ck = Inr (take 4 (drop 9 out)) \<and> take 1 (drop 15 out) = [of_nat (length text)]"
    using pk pn by blast
  show ?thesis
    by (rule that [OF c s1' s3' e k f' q1 q3 qk])
qed

subsection \<open>A run with the reference collaborators\<close>

lemma ref_header_1: "switch_endian ref_tools (hex4 143) = Inr ''8f00''"
  and ref_header_3: "switch_endian ref_tools (hex4 128) = Inr ''8000''"
  by code_simp+

lemma ref_encode_H_i:
  "encode_text ref_tools ''H i'' 16 ''ffffff'' ''default'' (0, 0) 16
     = Inr
       ''80ffffff0810c3c3c3c3c3c3c3c3c3c3c3c3c3c3c3c380ffffff0810c3c3c3c3c3c3c3c3c3c3c3c3c3c3c3c3''"
  by code_simp

lemma ref_body_bytes:
  "fromhex 
     ''03000101005000ffffff0000000080ffffff0810c3c3c3c3c3c3c3c3c3c3c3c3c3c3c3c380ffffff0810c3c3c3c3c3c3c3c3c3c3c3c3c3c3c3c3''
   = Inr [3, 0, 1, 1, 0, 80, 0, 255, 255, 255, 0, 0, 0, 0, 128, 255, 255, 255, 8, 16, 195,
      195, 195, 195, 195, 195, 195, 195, 195, 195, 195, 195, 195, 195, 195, 195, 128, 255,
      255, 255, 8, 16, 195, 195, 195, 195, 195, 195, 195, 195, 195, 195, 195, 195, 195,
      195, 195, 195]"
  by (simp add: hex_val_def is_space_def)

lemma ref_body_crc:
  "crc32 [3, 0, 1, 1, 0, 80, 0, 255, 255, 255, 0, 0, 0, 0, 128, 255, 255, 255, 8, 16, 195,
      195, 195, 195, 195, 195, 195, 195, 195, 195, 195, 195, 195, 195, 195, 195, 128, 255,
      255, 255, 8, 16, 195, 195, 195, 195, 195, 195, 195, 195, 195, 195, 195, 195, 195,
      195, 195, 195] = 0x1F94D50D"
  by (simp add: crc32_def crc32_byte_def crc32_bit_def)

lemma ref_crc_H_i:
  "CRC32_checksum ref_tools 
     ''03000101005000ffffff0000000080ffffff0810c3c3c3c3c3c3c3c3c3c3c3c3c3c3c3c380ffffff0810c3c3c3c3c3c3c3c3c3c3c3c3c3c3c3c3''
   = Inr ''0dd5941f''"
proof -
  have "zfill 8 (hex_nat (unat (0x1F94D50D :: 32 word))) = ''1f94d50d''"
    by (simp add: hex_nat.simps hex_digit_def zfill_def)
  then show ?thesis
    by (simp add: ref_tools_def ref_checksum_def ref_body_bytes ref_body_crc
        ref_switch_endian_def del: fromhex.simps)
qed



lemma to_int_PInt: "to_int (PInt n) name = Inr n"
  by (simp add: to_int_def)

lemma legacy_run:
  "send_text ref_tools ''H i'' (PInt 0) (PInt 0) (PInt 1) (PInt 80) ''ffffff'' ''default''
       (PInt 0) (PInt 0) (PInt 0) (PInt 16)
     = Inr [143, 0, 0, 1, 0, 128, 0, 0, 0, 13, 213, 148, 31, 0, 1, 3, 0, 1, 1, 0, 80, 0,
          255, 255, 255, 0, 0, 0, 0, 128, 255, 255, 255, 8, 16, 195, 195, 195, 195, 195,
          195, 195, 195, 195, 195, 195, 195, 195, 195, 195, 195, 128, 255, 255, 255, 8,
          16, 195, 195, 195, 195, 195, 195, 195, 195, 195, 195, 195, 195, 195, 195, 195,
          195]"
proof -
  have h1: "switch_endian ref_tools
      (zfill 4 (drop 2 (py_hex (0x1D + int (length ''H i'') * (6 + 16 * 2))))) = Inr ''8f00''"
    using ref_header_1 zfill_hex4 [of 143] by simp
  have h3: "switch_endian ref_tools
      (zfill 4 (drop 2 (py_hex (0xE + int (length ''H i'') * (6 + 16 * 2))))) = Inr ''8000''"
    using ref_header_3 zfill_hex4 [of 128] by simp
  have e: "encode_text ref_tools ''H i'' 16 ''ffffff'' ''default'' (0, 0) (if (0::int) = 0 then 16 else 0)
      = Inr ''80ffffff0810c3c3c3c3c3c3c3c3c3c3c3c3c3c3c3c380ffffff0810c3c3c3c3c3c3c3c3c3c3c3c3c3c3c3c3''"
    using ref_encode_H_i by simp
  have i: "int_to_hex 0 = ''00''" "int_to_hex 3 = ''03''" "int_to_hex 80 = ''50''"
    by (simp_all add: int_to_hex_byte hex_digit_def)
  have k: "CRC32_checksum ref_tools (int_to_hex (int (length ''H i''))
          @ (''000101'' @ int_to_hex 0 @ int_to_hex 80 @ int_to_hex 0 @ ''ffffff00000000'')
          @ ''80ffffff0810c3c3c3c3c3c3c3c3c3c3c3c3c3c3c3c380ffffff0810c3c3c3c3c3c3c3c3c3c3c3c3c3c3c3c3'') = Inr ''0dd5941f''"
    using ref_crc_H_i by (simp add: i)
  have s: "zfill 4 (drop 2 (py_hex 1)) = ''0001''"
    using zfill_hex4 [of 1] by (simp add: hex4_def hex_digit_def)
  have "send_text ref_tools ''H i'' (PInt 0) (PInt 0) (PInt 1) (PInt 80) ''ffffff'' ''default''
       (PInt 0) (PInt 0) (PInt 0) (PInt 16)
    = fromhex ((''8f00'' @ ''000100'' @ ''8000'' @ ''0000'') @ ''0dd5941f'' @ zfill 4 (drop 2 (py_hex 1))
          @ int_to_hex (int (length ''H i''))
          @ (''000101'' @ int_to_hex 0 @ int_to_hex 80 @ int_to_hex 0 @ ''ffffff00000000'')
          @ ''80ffffff0810c3c3c3c3c3c3c3c3c3c3c3c3c3c3c3c380ffffff0810c3c3c3c3c3c3c3c3c3c3c3c3c3c3c3c3'')"
    by (rule send_text_InrI [OF to_int_PInt to_int_PInt to_int_PInt to_int_PInt to_int_PInt
          to_int_PInt to_int_PInt to_int_PInt _ _ _ _ _ _ _ _ h1 h3 e k]) simp_all
  also have "\<dots> = Inr [143, 0, 0, 1, 0, 128, 0, 0, 0, 13, 213, 148, 31, 0, 1, 3, 0, 1, 1, 0, 80, 0,
          255, 255, 255, 0, 0, 0, 0, 128, 255, 255, 255, 8, 16, 195, 195, 195, 195, 195,
          195, 195, 195, 195, 195, 195, 195, 195, 195, 195, 195, 128, 255, 255, 255, 8,
          16, 195, 195, 195, 195, 195, 195, 195, 195, 195, 195, 195, 195, 195, 195, 195,
          195]"
    by (simp add: i s hex_val_def is_space_def)
  finally show ?thesis .
qed

lemma int_to_hex_values: "int_to_hex 0 = ''00''" "int_to_hex 3 = ''03''" "int_to_hex 80 = ''50''"
  by (simp_all add: int_to_hex_byte hex_digit_def)

lemma is_hex_text_ref_fields:
  "is_hex_text ''8f00''" "is_hex_text ''8000''" "is_hex_text ''0dd5941f''"
  by (simp_all add: is_hex_text_def hex_val_def)

subsection \<open>The two length fields\<close>

text \<open>
  Claim C4. Whenever \<^verbatim>\<open>send_text\<close> returns a command, the two length fields of its header
  are \<^verbatim>\<open>switch_endian\<close> of the 4-hex-digit rendering of \<open>0x1D + textLength * perCharCost\<close>
  and of \<open>0xE + textLength * perCharCost\<close>, with \<open>perCharCost = 6 + 2 * matrixHeight\<close>: the
  command is the decoding of a hex text that starts with the first field, \<^verbatim>\<open>000100\<close>, the
  second field and \<^verbatim>\<open>0000\<close>; when \<^verbatim>\<open>switch_endian\<close> answers with 4 hex digits, the fields
  are bytes 0-1 and 5-6 of the command.
\<close>

theorem send_text_length_fields:
  assumes "send_text T text rm_arg an_arg ss_arg sp_arg col font fx_arg fy_arg fs_arg mh_arg = Inr out"
  shows "\<exists>mh h1 h3.
      to_int mh_arg ''matrix height'' = Inr mh \<and>
      switch_endian T (hex4 (nat (0x1D + int (length text) * (6 + 2 * mh)))) = Inr h1 \<and>
      switch_endian T (hex4 (nat (0xE + int (length text) * (6 + 2 * mh)))) = Inr h3 \<and>
      (\<exists>rest. fromhex (h1 @ ''000100'' @ h3 @ ''0000'' @ rest) = Inr out) \<and>
      (is_hex_text h1 \<and> length h1 = 4 \<longrightarrow> fromhex h1 = Inr (take 2 out)) \<and>
      (is_hex_text h1 \<and> length h1 = 4 \<and> is_hex_text h3 \<and> length h3 = 4 \<longrightarrow>
         fromhex h3 = Inr (take 2 (drop 5 out)))"
proof (rule send_text_fieldsE [OF assms], goal_cases)
  case (1 rm an ss sp fx fy fs mh h1 h3 chars ck)
  have r: "\<exists>rest. fromhex (h1 @ ''000100'' @ h3 @ ''0000'' @ rest) = Inr out"
    by (rule exI [of _ "ck @ hex4 (nat ss) @ int_to_hex (int (length text))
          @ (''000101'' @ int_to_hex an @ int_to_hex sp @ int_to_hex rm @ ''ffffff00000000'') @ chars"])
       (rule 1(13))
  show ?case
    by (rule exI [of _ mh], rule exI [of _ h1], rule exI [of _ h3], intro conjI) (rule 1 r)+
qed

theorem send_text_length_fields_witness:
  "send_text ref_tools ''H i'' (PInt 0) (PInt 0) (PInt 1) (PInt 80) ''ffffff'' ''default''
       (PInt 0) (PInt 0) (PInt 0) (PInt 16)
     = Inr [143, 0, 0, 1, 0, 128, 0, 0, 0, 13, 213, 148, 31, 0, 1, 3, 0, 1, 1, 0, 80, 0,
          255, 255, 255, 0, 0, 0, 0, 128, 255, 255, 255, 8, 16, 195, 195, 195, 195, 195,
          195, 195, 195, 195, 195, 195, 195, 195, 195, 195, 195, 128, 255, 255, 255, 8,
          16, 195, 195, 195, 195, 195, 195, 195, 195, 195, 195, 195, 195, 195, 195, 195,
          195]
   \<and> switch_endian ref_tools (hex4 (0x1D + 3 * (6 + 2 * 16))) = Inr ''8f00''
   \<and> switch_endian ref_tools (hex4 (0xE + 3 * (6 + 2 * 16))) = Inr ''8000''
   \<and> fromhex ''8f00'' = Inr (take 2 ([143, 0, 0, 1, 0, 128, 0, 0, 0, 13, 213, 148, 31, 0, 1, 3, 0, 1, 1, 0, 80, 0,
          255, 255, 255, 0, 0, 0, 0, 128, 255, 255, 255, 8, 16, 195, 195, 195, 195, 195,
          195, 195, 195, 195, 195, 195, 195, 195, 195, 195, 195, 128, 255, 255, 255, 8,
          16, 195, 195, 195, 195, 195, 195, 195, 195, 195, 195, 195, 195, 195, 195, 195,
          195] :: byte list))
   \<and> fromhex ''8000'' = Inr (take 2 (drop 5 ([143, 0, 0, 1, 0, 128, 0, 0, 0, 13, 213, 148, 31, 0, 1, 3, 0, 1, 1, 0, 80, 0,
          255, 255, 255, 0, 0, 0, 0, 128, 255, 255, 255, 8, 16, 195, 195, 195, 195, 195,
          195, 195, 195, 195, 195, 195, 195, 195, 195, 195, 195, 128, 255, 255, 255, 8,
          16, 195, 195, 195, 195, 195, 195, 195, 195, 195, 195, 195, 195, 195, 195, 195,
          195] :: byte list)))"
proof -
  let ?out = "[143, 0, 0, 1, 0, 128, 0, 0, 0, 13, 213, 148, 31, 0, 1, 3, 0, 1, 1, 0, 80, 0,
          255, 255, 255, 0, 0, 0, 0, 128, 255, 255, 255, 8, 16, 195, 195, 195, 195, 195,
          195, 195, 195, 195, 195, 195, 195, 195, 195, 195, 195, 128, 255, 255, 255, 8,
          16, 195, 195, 195, 195, 195, 195, 195, 195, 195, 195, 195, 195, 195, 195, 195,
          195] :: byte list"
  from send_text_length_fields [OF legacy_run] obtain mh h1 h3 where
    m: "to_int (PInt 16) ''matrix height'' = Inr mh"
    and s1: "switch_endian ref_tools (hex4 (nat (0x1D + int (length ''H i'') * (6 + 2 * mh)))) = Inr h1"
    and s3: "switch_endian ref_tools (hex4 (nat (0xE + int (length ''H i'') * (6 + 2 * mh)))) = Inr h3"
    and p1: "is_hex_text h1 \<and> length h1 = 4 \<longrightarrow> fromhex h1 = Inr (take 2 ?out)"
    and p3: "is_hex_text h1 \<and> length h1 = 4 \<and> is_hex_text h3 \<and> length h3 = 4 \<longrightarrow>
         fromhex h3 = Inr (take 2 (drop 5 ?out))"
    by (elim exE conjE)
  from m have mh: "mh = 16" by (simp add: to_int_def)
  from s1 s3 have h: "h1 = ''8f00''" "h3 = ''8000''"
    using ref_header_1 ref_header_3 by (simp_all add: mh)
  have w: "is_hex_text ''8f00''" "is_hex_text ''8000''"
    by (simp_all add: is_hex_text_def hex_val_def)
  from p1 p3 w have "fromhex ''8f00'' = Inr (take 2 ?out)"
    "fromhex ''8000'' = Inr (take 2 (drop 5 ?out))"
    unfolding h by simp_all
  with legacy_run ref_header_1 ref_header_3 show ?thesis
    by simp
qed

subsection \<open>The scope of the checksum\<close>

text \<open>
  Claim C3. Whenever \<^verbatim>\<open>send_text\<close> returns a command, the checksum it embeds is
  \<^verbatim>\<open>CRC32_checksum\<close> of exactly the hex text of the character-count byte, the properties
  block and the encoded glyph stream; the header fields and the save slot are not part of
  its argument. When the header fields are 4 hex digits and the checksum 8, the checksum
  is bytes 9-12 of the command.
\<close>

theorem send_text_checksum_scope:
  assumes "send_text T text rm_arg an_arg ss_arg sp_arg col font fx_arg fy_arg fs_arg mh_arg = Inr out"
  shows "\<exists>rm an sp fx fy fs mh chars ck h1 h3.
      to_int rm_arg ''rainbow mode'' = Inr rm \<and> to_int an_arg ''animation'' = Inr an \<and>
      to_int sp_arg ''speed'' = Inr sp \<and>
      to_int fx_arg ''font offset x'' = Inr fx \<and> to_int fy_arg ''font offset y'' = Inr fy \<and>
      to_int fs_arg ''font size'' = Inr fs \<and> to_int mh_arg ''matrix height'' = Inr mh \<and>
      encode_text T text mh col font (fx, fy) (if fs = 0 then mh else fs) = Inr chars \<and>
      CRC32_checksum T (int_to_hex (int (length text))
          @ (''000101'' @ int_to_hex an @ int_to_hex sp @ int_to_hex rm @ ''ffffff00000000'')
          @ chars) = Inr ck \<and>
      switch_endian T (hex4 (nat (0x1D + int (length text) * (6 + 2 * mh)))) = Inr h1 \<and>
      switch_endian T (hex4 (nat (0xE + int (length text) * (6 + 2 * mh)))) = Inr h3 \<and>
      (is_hex_text h1 \<and> length h1 = 4 \<and> is_hex_text h3 \<and> length h3 = 4 \<and>
       is_hex_text ck \<and> length ck = 8 \<longrightarrow> fromhex ck = Inr (take 4 (drop 9 out)))"
proof (rule send_text_fieldsE [OF assms], goal_cases)
  case (1 rm an ss sp fx fy fs mh h1 h3 chars ck)
  have k: "is_hex_text h1 \<and> length h1 = 4 \<and> is_hex_text h3 \<and> length h3 = 4 \<and>
       is_hex_text ck \<and> length ck = 8 \<longrightarrow> fromhex ck = Inr (take 4 (drop 9 out))"
    using 1(16) by simp
  show ?case
    by (rule exI [of _ rm], rule exI [of _ an], rule exI [of _ sp], rule exI [of _ fx],
        rule exI [of _ fy], rule exI [of _ fs], rule exI [of _ mh], rule exI [of _ chars],
        rule exI [of _ ck], rule exI [of _ h1], rule exI [of _ h3], intro conjI)
       (rule 1 k)+
qed

theorem send_text_checksum_scope_witness:
  "send_text ref_tools ''H i'' (PInt 0) (PInt 0) (PInt 1) (PInt 80) ''ffffff'' ''default''
       (PInt 0) (PInt 0) (PInt 0) (PInt 16)
     = Inr [143, 0, 0, 1, 0, 128, 0, 0, 0, 13, 213, 148, 31, 0, 1, 3, 0, 1, 1, 0, 80, 0,
          255, 255, 255, 0, 0, 0, 0, 128, 255, 255, 255, 8, 16, 195, 195, 195, 195, 195,
          195, 195, 195, 195, 195, 195, 195, 195, 195, 195, 195, 128, 255, 255, 255, 8,
          16, 195, 195, 195, 195, 195, 195, 195, 195, 195, 195, 195, 195, 195, 195, 195,
          195]
   \<and> CRC32_checksum ref_tools
       ''03000101005000ffffff0000000080ffffff0810c3c3c3c3c3c3c3c3c3c3c3c3c3c3c3c380ffffff0810c3c3c3c3c3c3c3c3c3c3c3c3c3c3c3c3''
     = Inr ''0dd5941f''
   \<and> fromhex ''0dd5941f'' = Inr (take 4 (drop 9 ([143, 0, 0, 1, 0, 128, 0, 0, 0, 13, 213, 148, 31, 0, 1, 3, 0, 1, 1, 0, 80, 0,
          255, 255, 255, 0, 0, 0, 0, 128, 255, 255, 255, 8, 16, 195, 195, 195, 195, 195,
          195, 195, 195, 195, 195, 195, 195, 195, 195, 195, 195, 128, 255, 255, 255, 8,
          16, 195, 195, 195, 195, 195, 195, 195, 195, 195, 195, 195, 195, 195, 195, 195,
          195] :: byte list)))"
proof -
  let ?out = "[143, 0, 0, 1, 0, 128, 0, 0, 0, 13, 213, 148, 31, 0, 1, 3, 0, 1, 1, 0, 80, 0,
          255, 255, 255, 0, 0, 0, 0, 128, 255, 255, 255, 8, 16, 195, 195, 195, 195, 195,
          195, 195, 195, 195, 195, 195, 195, 195, 195, 195, 195, 128, 255, 255, 255, 8,
          16, 195, 195, 195, 195, 195, 195, 195, 195, 195, 195, 195, 195, 195, 195, 195,
          195] :: byte list"
  from send_text_checksum_scope [OF legacy_run] obtain rm an sp fx fy fs mh chars ck h1 h3 where
    c: "to_int (PInt 0) ''rainbow mode'' = Inr rm" "to_int (PInt 0) ''animation'' = Inr an"
      "to_int (PInt 80) ''speed'' = Inr sp"
      "to_int (PInt 0) ''font offset x'' = Inr fx" "to_int (PInt 0) ''font offset y'' = Inr fy"
      "to_int (PInt 0) ''font size'' = Inr fs" "to_int (PInt 16) ''matrix height'' = Inr mh"
    and e: "encode_text ref_tools ''H i'' mh ''ffffff'' ''default'' (fx, fy) (if fs = 0 then mh else fs)
        = Inr chars"
    and k: "CRC32_checksum ref_tools (int_to_hex (int (length ''H i''))
          @ (''000101'' @ int_to_hex an @ int_to_hex sp @ int_to_hex rm @ ''ffffff00000000'')
          @ chars) = Inr ck"
    and s1: "switch_endian ref_tools (hex4 (nat (0x1D + int (length ''H i'') * (6 + 2 * mh)))) = Inr h1"
    and s3: "switch_endian ref_tools (hex4 (nat (0xE + int (length ''H i'') * (6 + 2 * mh)))) = Inr h3"
    and p: "is_hex_text h1 \<and> length h1 = 4 \<and> is_hex_text h3 \<and> length h3 = 4 \<and>
       is_hex_text ck \<and> length ck = 8 \<longrightarrow> fromhex ck = Inr (take 4 (drop 9 ?out))"
    by (elim exE conjE)
  from c have v: "rm = 0" "an = 0" "sp = 80" "fx = 0" "fy = 0" "fs = 0" "mh = 16"
    by (simp_all add: to_int_def)
  from e have ch: "chars = ''80ffffff0810c3c3c3c3c3c3c3c3c3c3c3c3c3c3c3c380ffffff0810c3c3c3c3c3c3c3c3c3c3c3c3c3c3c3c3''"
    using ref_encode_H_i by (simp add: v)
  from k have ck: "ck = ''0dd5941f''"
    using ref_crc_H_i by (simp add: v ch int_to_hex_values)
  from s1 s3 have h: "h1 = ''8f00''" "h3 = ''8000''"
    using ref_header_1 ref_header_3 by (simp_all add: v)
  from p have "fromhex ''0dd5941f'' = Inr (take 4 (drop 9 ?out))"
    unfolding h ck using is_hex_text_ref_fields by simp
  with legacy_run ref_crc_H_i show ?thesis
    by simp
qed

subsection \<open>The character count and blank glyphs\<close>





end
